theory Spec2Isabelle
  imports Main "HOL-Library.Sublist"
begin

section \<open>The Nikola plugin manager (nikola/plugin_manager.py)\<close>

text \<open>
  A shallow embedding of \<^verbatim>\<open>PluginManager\<close>. Everything the Python does beyond
  returning a value is explicit: the manager's attributes and the parts of the process
  it touches (\<^verbatim>\<open>sys.modules\<close>, the log, the code it runs) are fields of a
  state record, every raise is an \<open>Inl\<close> result, and the file system is a record of
  functions that answer the four questions the code asks of it.
\<close>

subsection \<open>Paths and strings\<close>

text \<open>
  A \<^verbatim>\<open>pathlib.Path\<close> is the list of its \<^verbatim>\<open>parts\<close> (POSIX: an absolute path
  starts with the part \<^verbatim>\<open>/\<close>, or \<^verbatim>\<open>//\<close> when it was written with exactly two
  leading slashes). \<^verbatim>\<open>p / name\<close> parses the string: it is split at the slashes,
  empty components and \<^verbatim>\<open>.\<close> are dropped, \<^verbatim>\<open>..\<close> is kept, and a string that
  starts with a slash replaces \<open>p\<close>.
\<close>

type_synonym path = "string list"

fun join :: "string \<Rightarrow> string list \<Rightarrow> string" where
  "join sep [] = []"
| "join sep [x] = x"
| "join sep (x # y # ys) = x @ sep @ join sep (y # ys)"

definition path_str :: "path \<Rightarrow> string" where
  \<comment> \<open>\<^verbatim>\<open>str(path)\<close>, as an f-string renders it\<close>
  "path_str p =
     (case p of
        [] \<Rightarrow> ''.''
      | x # xs \<Rightarrow> if x = ''/'' \<or> x = ''//'' then x @ join ''/'' xs else join ''/'' p)"

definition parent :: "path \<Rightarrow> path" where
  \<comment> \<open>\<^verbatim>\<open>path.parent\<close>; the root is its own parent\<close>
  "parent p = (if p = [''/''] \<or> p = [''//''] then p else butlast p)"

fun split_on :: "char \<Rightarrow> string \<Rightarrow> string list" where
  \<comment> \<open>\<^verbatim>\<open>s.split(sep)\<close>\<close>
  "split_on sep [] = [[]]"
| "split_on sep (c # cs) =
     (if c = sep then [] # split_on sep cs
      else (case split_on sep cs of
              [] \<Rightarrow> [[c]]
            | x # xs \<Rightarrow> (c # x) # xs))"

definition path_parts :: "string \<Rightarrow> path" where
  \<comment> \<open>the parts of \<^verbatim>\<open>Path(s)\<close>\<close>
  "path_parts s =
     (let rel = dropWhile (\<lambda>c. c = CHR ''/'') s;
          slashes = length s - length rel;
          root = (if slashes = 0 then [] else if slashes = 2 then [''//''] else [''/''])
      in root @ filter (\<lambda>x. x \<noteq> [] \<and> x \<noteq> ''.'') (split_on (CHR ''/'') rel))"

definition joinpath :: "path \<Rightarrow> string \<Rightarrow> path" where
  \<comment> \<open>\<^verbatim>\<open>p / s\<close>\<close>
  "joinpath p s =
     (case s of
        [] \<Rightarrow> p
      | c # cs \<Rightarrow> if c = CHR ''/'' then path_parts s else p @ path_parts s)"

definition relative_to :: "path \<Rightarrow> path \<Rightarrow> path option" where
  \<comment> \<open>\<^verbatim>\<open>path.relative_to(root)\<close>; \<open>None\<close> is its \<^verbatim>\<open>ValueError\<close>\<close>
  "relative_to p root = (if prefix root p then Some (drop (length root) p) else None)"

definition endswith :: "string \<Rightarrow> string \<Rightarrow> bool" where
  "endswith s suf = suffix suf s"

subsection \<open>Errors and log records\<close>

datatype error =
    KeyError string
  | IndexError
  | OSError              \<comment> \<open>raised by \<^verbatim>\<open>path.exists()\<close>, for a name that is too long, say\<close>
  | ReadError            \<comment> \<open>whatever \<^verbatim>\<open>config.read\<close> raises on a file it cannot parse\<close>
  | InterpolationError   \<comment> \<open>raised when a value is read whose \<^verbatim>\<open>%\<close> syntax is wrong\<close>

type_synonym 'a outcome = "error + 'a"

datatype level = Debug | Warning | Exception_trace
  \<comment> \<open>\<^verbatim>\<open>logger.exception\<close> is level ERROR with the traceback attached\<close>

datatype log_arg = AStr string | ANum int

datatype log_record = Log level string "log_arg list"
  \<comment> \<open>level, message (or format string), and the arguments passed beside it\<close>

subsection \<open>Module constants\<close>

definition LEGACY_PLUGIN_NAMES :: "(string \<times> string) list" where
  "LEGACY_PLUGIN_NAMES =
     [(''Compiler'', ''PageCompiler''),
      (''Shortcode'', ''ShortcodePlugin''),
      (''Template'', ''TemplateSystem'')]"

text \<open>
  \<^verbatim>\<open>BasePlugin\<close> and \<^verbatim>\<open>CATEGORIES\<close> come from \<^verbatim>\<open>nikola.plugin_categories\<close> and
  \<^verbatim>\<open>plugins_root\<close> from the location of the package on disk; they are parameters
  here. A class object is identified by a number.
\<close>

record env =
  CATEGORIES :: "(string \<times> nat) list"   \<comment> \<open>category name \<open>\<rightarrow>\<close> capability class\<close>
  BasePlugin :: nat
  plugins_root :: path

definition CATEGORY_NAMES :: "env \<Rightarrow> string set" where
  "CATEGORY_NAMES E = set (map fst (CATEGORIES E))"

definition CATEGORY_TYPES :: "env \<Rightarrow> nat set" where
  "CATEGORY_TYPES E = set (map snd (CATEGORIES E))"

subsection \<open>Manifests as \<^verbatim>\<open>configparser\<close> leaves them\<close>

text \<open>
  What \<^verbatim>\<open>config.read(plugin_file)\<close> does to a fresh \<^verbatim>\<open>ConfigParser\<close>: it raises, or
  it fills the parser with the DEFAULT section and the named sections. Option keys are
  stored lower-cased (\<^verbatim>\<open>optionxform\<close>), and looked up lower-cased. A stored value
  whose interpolation syntax is wrong raises when it is read, not when it is parsed.
\<close>

datatype cfg_value = Val string | BadInterpolation

type_synonym cfg_section = "(string \<times> cfg_value) list"

record config =
  cfg_defaults :: cfg_section
  cfg_sections :: "(string \<times> cfg_section) list"

datatype manifest_file = ReadRaises | Parsed config

definition lower_char :: "char \<Rightarrow> char" where
  "lower_char c =
     (case map_of (zip ''ABCDEFGHIJKLMNOPQRSTUVWXYZ'' ''abcdefghijklmnopqrstuvwxyz'') c of
        None \<Rightarrow> c
      | Some l \<Rightarrow> l)"

definition optionxform :: "string \<Rightarrow> string" where
  "optionxform key = map lower_char key"

definition cfg_contains :: "config \<Rightarrow> string \<Rightarrow> bool" where
  \<comment> \<open>\<^verbatim>\<open>section in config\<close>\<close>
  "cfg_contains cfg sec = (sec = ''DEFAULT'' \<or> map_of (cfg_sections cfg) sec \<noteq> None)"

definition cfg_options :: "config \<Rightarrow> string \<Rightarrow> (string \<rightharpoonup> cfg_value) outcome" where
  \<comment> \<open>\<^verbatim>\<open>config[section]\<close>: the section's options over the defaults\<close>
  "cfg_options cfg sec =
     (if sec = ''DEFAULT'' then Inr (map_of (cfg_defaults cfg))
      else case map_of (cfg_sections cfg) sec of
             None \<Rightarrow> Inl (KeyError sec)
           | Some opts \<Rightarrow> Inr (map_of (cfg_defaults cfg) ++ map_of opts))"

definition cfg_item :: "config \<Rightarrow> string \<Rightarrow> string \<Rightarrow> string outcome" where
  \<comment> \<open>\<^verbatim>\<open>config[section][key]\<close>\<close>
  "cfg_item cfg sec key =
     (case cfg_options cfg sec of
        Inl e \<Rightarrow> Inl e
      | Inr opts \<Rightarrow>
          (case opts (optionxform key) of
             None \<Rightarrow> Inl (KeyError key)
           | Some BadInterpolation \<Rightarrow> Inl InterpolationError
           | Some (Val v) \<Rightarrow> Inr v))"

definition cfg_get :: "config \<Rightarrow> string \<Rightarrow> string \<Rightarrow> string option outcome" where
  \<comment> \<open>\<^verbatim>\<open>config[section].get(key)\<close>\<close>
  "cfg_get cfg sec key =
     (case cfg_options cfg sec of
        Inl e \<Rightarrow> Inl e
      | Inr opts \<Rightarrow>
          (case opts (optionxform key) of
             None \<Rightarrow> Inr None
           | Some BadInterpolation \<Rightarrow> Inl InterpolationError
           | Some (Val v) \<Rightarrow> Inr (Some v)))"

subsection \<open>Python values the loader looks at\<close>

text \<open>
  Plugin code is what the file system says it is: executing a file, or calling a class
  with no arguments, either returns or raises an \<^verbatim>\<open>Exception\<close>, and which of the two
  does not depend on what ran before. Each such run is recorded in \<open>effects\<close>. Code
  that ends the interpreter (\<^verbatim>\<open>SystemExit\<close> and \<^verbatim>\<open>KeyboardInterrupt\<close> are not
  \<^verbatim>\<open>Exception\<close>s and pass every handler of the manager) is outside the model.
\<close>

datatype ctor_result = CtorRaises | CtorReturns

record py_class =
  cls_id :: nat             \<comment> \<open>the identity of the class object\<close>
  cls_mro :: "nat list"     \<comment> \<open>the classes it is a subclass of, itself included\<close>
  cls_ctor :: ctor_result   \<comment> \<open>what calling it with no arguments does\<close>

datatype py_value = PyClass py_class | PyOther

datatype exec_result = ExecRaises | ExecOk "(string \<times> py_value) list"
  \<comment> \<open>\<^verbatim>\<open>exec_module\<close> raises an \<^verbatim>\<open>Exception\<close>, or leaves the module's namespace\<close>

record py_module =
  mod_id :: nat
  mod_name :: string
  mod_origin :: path
  mod_vars :: "(string \<times> py_value) list"

record py_instance =
  inst_id :: nat
  inst_cls :: nat

definition issubclass :: "py_class \<Rightarrow> nat \<Rightarrow> bool" where
  "issubclass c b = (b \<in> set (cls_mro c))"

subsection \<open>Candidates, plugins and the state\<close>

record plugin_candidate =
  name :: string
  description :: "string option"
  plugin_id :: string
  category :: string
  compiler :: "string option"
  source_dir :: path
  "module_name" :: string

text \<open>
  \<^verbatim>\<open>PluginInfo\<close> declares the seven fields of \<^verbatim>\<open>PluginCandidate\<close> again and two
  more; the record extension keeps the field names of both.
\<close>

record plugin_info = plugin_candidate +
  module_object :: py_module
  plugin_object :: py_instance

datatype effect = Executed path | Instantiated nat
  \<comment> \<open>plugin code that ran: a file's top level, a class's constructor\<close>

record filesystem =
  rglob_plugin :: "path \<Rightarrow> path list"          \<comment> \<open>\<^verbatim>\<open>place.rglob("*.plugin")\<close>\<close>
  read_manifest :: "path \<Rightarrow> manifest_file"     \<comment> \<open>\<^verbatim>\<open>config.read(plugin_file)\<close>\<close>
  path_exists :: "path \<Rightarrow> bool outcome"        \<comment> \<open>\<^verbatim>\<open>path.exists()\<close>\<close>
  exec_module :: "path \<Rightarrow> exec_result"         \<comment> \<open>\<^verbatim>\<open>spec.loader.exec_module\<close> on that file\<close>

record process =
  sys_modules :: "string \<rightharpoonup> nat"     \<comment> \<open>qualified name \<open>\<rightarrow>\<close> identity of the module object\<close>
  effects :: "effect list"
  next_id :: nat                       \<comment> \<open>identity of the next object created\<close>
  logger :: "log_record list"          \<comment> \<open>what the "PluginManager" logger has emitted\<close>

text \<open>
  The manager's attributes, on top of the process it lives in. The two private ones,
  \<^verbatim>\<open>_plugins_by_category\<close> and \<^verbatim>\<open>_deprecation_already_warned\<close>, lose their
  underscore.
\<close>

record pm_state = process +
  plugin_places :: "path list"
  candidates :: "plugin_candidate list"
  plugins :: "plugin_info list"
  plugins_by_category :: "string \<rightharpoonup> plugin_info list"
  deprecation_already_warned :: "(string \<times> string \<times> int option) set"

definition init :: "path list \<Rightarrow> process \<Rightarrow> pm_state" where
  \<comment> \<open>\<^verbatim>\<open>PluginManager(plugin_places)\<close> in a running process\<close>
  "init places p =
     \<lparr>sys_modules = sys_modules p, effects = effects p, next_id = next_id p,
      logger = logger p,
      plugin_places = places, candidates = [], plugins = [],
      plugins_by_category = Map.empty, deprecation_already_warned = {}\<rparr>"

definition emit :: "level \<Rightarrow> string \<Rightarrow> log_arg list \<Rightarrow> pm_state \<Rightarrow> pm_state" where
  "emit l m as s = s\<lparr>logger := logger s @ [Log l m as]\<rparr>"

subsection \<open>\<^verbatim>\<open>locate_plugins\<close>\<close>

definition canonical_category :: "string \<Rightarrow> string" where
  \<comment> \<open>\<^verbatim>\<open>if category in LEGACY_PLUGIN_NAMES: category = LEGACY_PLUGIN_NAMES[category]\<close>\<close>
  "canonical_category declared =
     (case map_of LEGACY_PLUGIN_NAMES declared of
        Some canonical \<Rightarrow> canonical
      | None \<Rightarrow> declared)"

definition scan_manifest ::
  "env \<Rightarrow> path \<Rightarrow> manifest_file \<Rightarrow> (log_record \<times> plugin_candidate option) outcome" where
  \<comment> \<open>the body of the loop over \<^verbatim>\<open>plugin_files\<close>, given what reading the file left: it
      raises, or logs one line and has a candidate to append or not (\<^verbatim>\<open>continue\<close>).
      A primed name is the Python local of that name.\<close>
  "scan_manifest E plugin_file content =
     (let source_dir' = parent plugin_file in
      case content of
        ReadRaises \<Rightarrow> Inl ReadError
      | Parsed config \<Rightarrow>
     (case cfg_item config ''Core'' ''name'' of
        Inl e \<Rightarrow> Inl e
      | Inr name' \<Rightarrow>
     (case cfg_item config ''Core'' ''module'' of
        Inl e \<Rightarrow> Inl e
      | Inr module_name' \<Rightarrow>
      let plugin_id' = ''Plugin '' @ name' @ '' from '' @ path_str plugin_file in
     (case (if cfg_contains config ''Documentation''
            then cfg_get config ''Documentation'' ''Description'' else Inr None) of
        Inl e \<Rightarrow> Inl e
      | Inr description' \<Rightarrow>
      if \<not> cfg_contains config ''Nikola'' then
        Inr (Log Warning
               (plugin_id' @ '' does not specify Nikola configuration - it will not be loaded'') [],
             None)
      else
     (case cfg_get config ''Nikola'' ''PluginCategory'' of
        Inl e \<Rightarrow> Inl e
      | Inr category_opt \<Rightarrow>
     (case cfg_get config ''Nikola'' ''Compiler'' of
        Inl e \<Rightarrow> Inl e
      | Inr compiler' \<Rightarrow>
     (case (case category_opt of None \<Rightarrow> None | Some c \<Rightarrow> (if c = [] then None else Some c)) of
        None \<Rightarrow>
          Inr (Log Warning
                 (plugin_id' @ '' does not specify any category - it will not be loaded'') [],
               None)
      | Some declared \<Rightarrow>
      let category' = canonical_category declared in
      if category' \<notin> CATEGORY_NAMES E then
        Inr (Log Warning
               (plugin_id' @ '' specifies invalid category '' @ [CHR 0x27] @ category' @ [CHR 0x27])
               [],
             None)
      else
        Inr (Log Debug (''Discovered '' @ plugin_id') [],
             Some \<lparr>name = name', description = description', plugin_id = plugin_id',
                   category = category', compiler = compiler', source_dir = source_dir',
                   module_name = module_name'\<rparr>))))))))"

definition locate_one :: "env \<Rightarrow> filesystem \<Rightarrow> path \<Rightarrow> pm_state \<Rightarrow> unit outcome \<times> pm_state" where
  \<comment> \<open>one turn of that loop on the state\<close>
  "locate_one E fs plugin_file s =
     (case scan_manifest E plugin_file (read_manifest fs plugin_file) of
        Inl e \<Rightarrow> (Inl e, s)
      | Inr (line, found) \<Rightarrow>
          (Inr (), s\<lparr>logger := logger s @ [line],
                     candidates := candidates s @ (case found of None \<Rightarrow> [] | Some c \<Rightarrow> [c])\<rparr>))"

fun locate_loop :: "env \<Rightarrow> filesystem \<Rightarrow> path list \<Rightarrow> pm_state \<Rightarrow> unit outcome \<times> pm_state" where
  "locate_loop E fs [] s = (Inr (), s)"
| "locate_loop E fs (plugin_file # plugin_files) s =
     (case locate_one E fs plugin_file s of
        (Inl e, s') \<Rightarrow> (Inl e, s')
      | (Inr _, s') \<Rightarrow> locate_loop E fs plugin_files s')"

definition plugin_files :: "filesystem \<Rightarrow> path list \<Rightarrow> path list" where
  \<comment> \<open>\<^verbatim>\<open>for place in self.plugin_places: plugin_files += place.rglob("*.plugin")\<close>\<close>
  "plugin_files fs places = concat (map (rglob_plugin fs) places)"

definition locate_plugins ::
  "env \<Rightarrow> filesystem \<Rightarrow> pm_state \<Rightarrow> plugin_candidate list outcome \<times> pm_state" where
  "locate_plugins E fs s =
     (case locate_loop E fs (plugin_files fs (plugin_places s)) (s\<lparr>candidates := []\<rparr>) of
        (Inl e, s') \<Rightarrow> (Inl e, s')
      | (Inr _, s') \<Rightarrow> (Inr (candidates s'), s'))"

subsection \<open>\<^verbatim>\<open>load_plugins\<close>\<close>

definition py_file_location :: "filesystem \<Rightarrow> plugin_candidate \<Rightarrow> path option outcome" where
  \<comment> \<open>the module file, else the package's entry file; \<open>None\<close> when neither exists.
      Both calls of \<^verbatim>\<open>exists()\<close> stand outside every handler.\<close>
  "py_file_location fs candidate =
     (let py = joinpath (source_dir candidate) (module_name candidate @ ''.py'') in
      case path_exists fs py of
        Inl e \<Rightarrow> Inl e
      | Inr found \<Rightarrow>
      let py = (if \<not> found
                then joinpath (joinpath (source_dir candidate) (module_name candidate))
                       ''__init__.py''
                else py) in
     (case path_exists fs py of
        Inl e \<Rightarrow> Inl e
      | Inr found \<Rightarrow> if \<not> found then Inr None else Inr (Some py)))"

definition full_module_name :: "env \<Rightarrow> path \<Rightarrow> string \<Rightarrow> string outcome" where
  \<comment> \<open>the dotted name under \<^verbatim>\<open>plugins_root\<close>, else the bare module name;
      \<^verbatim>\<open>name_parts[-1]\<close> raises on an empty list\<close>
  "full_module_name E py module_name' =
     (case relative_to py (plugins_root E) of
        None \<Rightarrow> Inr module_name'
      | Some name_parts \<Rightarrow>
          if name_parts = [] then Inl IndexError
          else if last name_parts = ''__init__.py''
            then Inr (join ''.'' (butlast name_parts))
          else if endswith (last name_parts) ''.py''
            then Inr (join ''.'' (butlast name_parts @
                       [take (length (last name_parts) - 3) (last name_parts)]))
          else Inr (join ''.'' name_parts))"

definition plugin_classes :: "env \<Rightarrow> (string \<times> py_value) list \<Rightarrow> py_class list" where
  \<comment> \<open>the comprehension over \<^verbatim>\<open>vars(module_object).values()\<close>\<close>
  "plugin_classes E vars =
     concat (map (\<lambda>v. case v of
                         PyClass c \<Rightarrow>
                           if issubclass c (BasePlugin E) \<and> cls_id c \<notin> CATEGORY_TYPES E
                           then [c] else []
                       | PyOther \<Rightarrow> [])
                 (map snd vars))"

definition load_one ::
  "env \<Rightarrow> filesystem \<Rightarrow> plugin_candidate \<Rightarrow> pm_state \<Rightarrow> unit outcome \<times> pm_state" where
  \<comment> \<open>one turn of the loop over \<^verbatim>\<open>candidates\<close>\<close>
  "load_one E fs candidate s =
     (case py_file_location fs candidate of
        Inl e \<Rightarrow> (Inl e, s)
      | Inr None \<Rightarrow>
          (Inr (), emit Warning
             (plugin_id candidate @ '' could not be loaded (no valid module detected)'') [] s)
      | Inr (Some py) \<Rightarrow>
      let plugin_id' = plugin_id candidate @ '' ('' @ path_str py @ '')'' in
     (case full_module_name E py (module_name candidate) of
        Inl e \<Rightarrow> (Inl e, s)
      | Inr full_name \<Rightarrow>
      let module_id = next_id s;
          s1 = s\<lparr>next_id := Suc (next_id s)\<rparr>;
          s2 = (if full_name \<notin> dom (sys_modules s1)
                then s1\<lparr>sys_modules := (sys_modules s1)(full_name \<mapsto> module_id)\<rparr>
                else s1);
          s3 = s2\<lparr>effects := effects s2 @ [Executed py]\<rparr>
      in
     (case exec_module fs py of
        ExecRaises \<Rightarrow>
          (Inr (), emit Exception_trace (plugin_id' @ '' threw an exception while loading'') [] s3)
      | ExecOk vars \<Rightarrow>
      let module_object' = \<lparr>mod_id = module_id, mod_name = full_name, mod_origin = py,
                             mod_vars = vars\<rparr>;
          classes = plugin_classes E vars
      in
      if length classes = 0 then
        (Inr (), emit Warning (plugin_id' @ '' does not have any plugin classes'') [] s3)
      else if length classes > 1 then
        (Inr (), emit Warning
           (plugin_id' @ '' has multiple plugin classes; this is not supported - skipping'') [] s3)
      else
      let s4 = s3\<lparr>effects := effects s3 @ [Instantiated (cls_id (classes ! 0))]\<rparr> in
     (case cls_ctor (classes ! 0) of
        CtorRaises \<Rightarrow>
          (Inr (), emit Exception_trace
             (plugin_id' @ '' threw an exception while creating an instance'') [] s4)
      | CtorReturns \<Rightarrow>
      let plugin_object' = \<lparr>inst_id = next_id s4, inst_cls = cls_id (classes ! 0)\<rparr>;
          s5 = s4\<lparr>next_id := Suc (next_id s4)\<rparr>;
          s6 = emit Debug (''Loaded '' @ plugin_id') [] s5;
          info = \<lparr>name = name candidate, description = description candidate,
                  plugin_id = plugin_id candidate, category = category candidate,
                  compiler = compiler candidate, source_dir = source_dir candidate,
                  module_name = module_name candidate,
                  module_object = module_object', plugin_object = plugin_object'\<rparr>
      in (Inr (), s6\<lparr>plugins := plugins s6 @ [info]\<rparr>)))))"

fun load_loop ::
  "env \<Rightarrow> filesystem \<Rightarrow> plugin_candidate list \<Rightarrow> pm_state \<Rightarrow> unit outcome \<times> pm_state" where
  "load_loop E fs [] s = (Inr (), s)"
| "load_loop E fs (candidate # rest) s =
     (case load_one E fs candidate s of
        (Inl e, s') \<Rightarrow> (Inl e, s')
      | (Inr _, s') \<Rightarrow> load_loop E fs rest s')"

fun index_loop :: "plugin_info list \<Rightarrow> pm_state \<Rightarrow> unit outcome \<times> pm_state" where
  \<comment> \<open>\<^verbatim>\<open>self._plugins_by_category[plugin_info.category].append(plugin_info)\<close>, for each\<close>
  "index_loop [] s = (Inr (), s)"
| "index_loop (plugin_info # rest) s =
     (case plugins_by_category s (category plugin_info) of
        None \<Rightarrow> (Inl (KeyError (category plugin_info)), s)
      | Some entry \<Rightarrow>
          index_loop rest
            (s\<lparr>plugins_by_category :=
                 (plugins_by_category s)(category plugin_info \<mapsto> entry @ [plugin_info])\<rparr>))"

definition load_plugins ::
  "env \<Rightarrow> filesystem \<Rightarrow> plugin_candidate list \<Rightarrow> pm_state \<Rightarrow> unit outcome \<times> pm_state" where
  "load_plugins E fs cands s =
     (case load_loop E fs cands s of
        (Inl e, s') \<Rightarrow> (Inl e, s')
      | (Inr _, s') \<Rightarrow>
          index_loop (plugins s')
            (s'\<lparr>plugins_by_category :=
                  (\<lambda>c. if c \<in> CATEGORY_NAMES E then Some [] else None)\<rparr>))"

subsection \<open>Queries\<close>

definition get_plugins_of_category :: "string \<Rightarrow> pm_state \<Rightarrow> plugin_info list" where
  "get_plugins_of_category category' s =
     (case plugins_by_category s category' of None \<Rightarrow> [] | Some entry \<Rightarrow> entry)"

fun first_match :: "string \<Rightarrow> string option \<Rightarrow> plugin_info list \<Rightarrow> plugin_info option" where
  \<comment> \<open>the loop of \<^verbatim>\<open>get_plugin_by_name\<close>; falling off its end returns \<^verbatim>\<open>None\<close>\<close>
  "first_match name' category' [] = None"
| "first_match name' category' (p # ps) =
     (if name p = name' \<and> (category' = None \<or> Some (category p) = category')
      then Some p else first_match name' category' ps)"

definition get_plugin_by_name :: "string \<Rightarrow> string option \<Rightarrow> pm_state \<Rightarrow> plugin_info option" where
  "get_plugin_by_name name' category' s = first_match name' category' (plugins s)"

subsection \<open>The deprecated aliases\<close>

text \<open>
  An alias is called from somewhere: the frame that called it, which
  \<^verbatim>\<open>traceback.extract_stack()[-3]\<close> picks from inside \<^verbatim>\<open>_warn_deprecation\<close>, is an
  argument of the alias here.
\<close>

record frame_summary =
  fr_name :: string
  fr_filename :: string
  fr_lineno :: "int option"

definition deprecation_line :: "string \<Rightarrow> frame_summary \<Rightarrow> log_record" where
  \<comment> \<open>the two \<^verbatim>\<open>logger.warning\<close> calls, by whether the frame has a line number\<close>
  "deprecation_line deprecated_method caller =
     (case fr_lineno caller of
        Some lineno \<Rightarrow>
          Log Warning ''Deprecated method %s still called by %s in %s, line %i.''
            [AStr deprecated_method, AStr (fr_name caller), AStr (fr_filename caller),
             ANum lineno]
      | None \<Rightarrow>
          Log Warning ''Deprecated method %s still called by %s in %s.''
            [AStr deprecated_method, AStr (fr_name caller), AStr (fr_filename caller)])"

definition warn_deprecation :: "string \<Rightarrow> frame_summary \<Rightarrow> pm_state \<Rightarrow> pm_state" where
  \<comment> \<open>\<open>caller\<close> is \<^verbatim>\<open>traceback.extract_stack()[-3]\<close>: the frame that called the alias\<close>
  "warn_deprecation deprecated_method caller s =
     (let key = (deprecated_method, fr_filename caller, fr_lineno caller) in
      if key \<notin> deprecation_already_warned s then
        (let s1 = s\<lparr>deprecation_already_warned := insert key (deprecation_already_warned s)\<rparr>
         in s1\<lparr>logger := logger s1 @ [deprecation_line deprecated_method caller]\<rparr>)
      else s)"

definition getPluginsOfCategory ::
  "frame_summary \<Rightarrow> string \<Rightarrow> pm_state \<Rightarrow> plugin_info list \<times> pm_state" where
  "getPluginsOfCategory caller category' s =
     (let s1 = warn_deprecation ''getPluginsOfCategory'' caller s in
      ((case plugins_by_category s1 category' of None \<Rightarrow> [] | Some entry \<Rightarrow> entry), s1))"

definition getPluginByName ::
  "frame_summary \<Rightarrow> string \<Rightarrow> string option \<Rightarrow> pm_state \<Rightarrow> plugin_info option \<times> pm_state" where
  "getPluginByName caller name' category' s =
     (let s1 = warn_deprecation ''getPluginByName'' caller s in
      (get_plugin_by_name name' category' s1, s1))"

section \<open>Notions used to state the properties\<close>

fun lvl :: "log_record \<Rightarrow> level" where
  "lvl (Log l m as) = l"



text \<open>
  What becomes of a candidate, read off the file system alone. \<open>Aborts\<close> is the one
  uncaught raise of the loop: \<^verbatim>\<open>exists()\<close> raising, or \<^verbatim>\<open>name_parts[-1]\<close> on an
  empty list, when the code file found is \<^verbatim>\<open>plugins_root\<close> itself.
\<close>

datatype fate = NoModule | Aborts | ExecFails | NoClass | ManyClasses | CtorFails | Loads

definition fate :: "env \<Rightarrow> filesystem \<Rightarrow> plugin_candidate \<Rightarrow> fate" where
  "fate E fs c =
     (case py_file_location fs c of
        Inl e \<Rightarrow> Aborts
      | Inr None \<Rightarrow> NoModule
      | Inr (Some py) \<Rightarrow>
     (case full_module_name E py (module_name c) of
        Inl e \<Rightarrow> Aborts
      | Inr full_name \<Rightarrow>
     (case exec_module fs py of
        ExecRaises \<Rightarrow> ExecFails
      | ExecOk vars \<Rightarrow>
     (case plugin_classes E vars of
        [] \<Rightarrow> NoClass
      | [k] \<Rightarrow> (case cls_ctor k of CtorRaises \<Rightarrow> CtorFails | CtorReturns \<Rightarrow> Loads)
      | _ \<Rightarrow> ManyClasses))))"

text \<open>The line the loop logs for a candidate it gets past.\<close>

definition fate_line :: "env \<Rightarrow> filesystem \<Rightarrow> plugin_candidate \<Rightarrow> log_record" where
  "fate_line E fs c =
     (case py_file_location fs c of
        Inr (Some py) \<Rightarrow>
          (let shown = plugin_id c @ '' ('' @ path_str py @ '')'' in
           case fate E fs c of
             ExecFails \<Rightarrow> Log Exception_trace (shown @ '' threw an exception while loading'') []
           | NoClass \<Rightarrow> Log Warning (shown @ '' does not have any plugin classes'') []
           | ManyClasses \<Rightarrow>
               Log Warning
                 (shown @ '' has multiple plugin classes; this is not supported - skipping'') []
           | CtorFails \<Rightarrow>
               Log Exception_trace (shown @ '' threw an exception while creating an instance'') []
           | _ \<Rightarrow> Log Debug (''Loaded '' @ shown) [])
      | _ \<Rightarrow> Log Warning (plugin_id c @ '' could not be loaded (no valid module detected)'') [])"

text \<open>The candidates the loop reaches: those before the first that aborts it.\<close>

definition run :: "env \<Rightarrow> filesystem \<Rightarrow> plugin_candidate list \<Rightarrow> plugin_candidate list" where
  "run E fs cands = takeWhile (\<lambda>c. fate E fs c \<noteq> Aborts) cands"

text \<open>What \<^verbatim>\<open>get_plugin_by_name\<close> looks for.\<close>

definition matches :: "string \<Rightarrow> string option \<Rightarrow> plugin_info \<Rightarrow> bool" where
  "matches name' category' p =
     (name p = name' \<and> (case category' of None \<Rightarrow> True | Some c \<Rightarrow> category p = c))"

text \<open>
  The life of a manager: the calls made on it, in order. A call that raises leaves the
  state it had reached, and the caller may go on.
\<close>

datatype call =
    Locate filesystem
  | Load filesystem "plugin_candidate list"
  | GetCategory string
  | GetByName string "string option"
  | AliasCategory frame_summary string
  | AliasByName frame_summary string "string option"

fun perform :: "env \<Rightarrow> call \<Rightarrow> pm_state \<Rightarrow> pm_state" where
  "perform E (Locate fs) s = snd (locate_plugins E fs s)"
| "perform E (Load fs cands) s = snd (load_plugins E fs cands s)"
| "perform E (GetCategory c) s = s"
| "perform E (GetByName n cat) s = s"
| "perform E (AliasCategory caller c) s = snd (getPluginsOfCategory caller c s)"
| "perform E (AliasByName caller n cat) s = snd (getPluginByName caller n cat s)"

definition history :: "env \<Rightarrow> call list \<Rightarrow> pm_state \<Rightarrow> pm_state" where
  "history E calls s = foldl (\<lambda>s c. perform E c s) s calls"

fun site :: "call \<Rightarrow> (string \<times> string \<times> int option) option" where
  \<comment> \<open>the alias called and where from, for the calls that are calls of an alias\<close>
  "site (AliasCategory caller c) =
     Some (''getPluginsOfCategory'', fr_filename caller, fr_lineno caller)"
| "site (AliasByName caller n cat) =
     Some (''getPluginByName'', fr_filename caller, fr_lineno caller)"
| "site _ = None"

section \<open>A small site, for concrete runs\<close>

definition demo_env :: env where
  "demo_env =
     \<lparr>CATEGORIES = [(''PageCompiler'', 1), (''Task'', 2)], BasePlugin = 0,
      plugins_root = [''/'', ''opt'', ''nikola'']\<rparr>"

definition demo_core :: "string \<Rightarrow> string \<Rightarrow> string \<times> cfg_section" where
  "demo_core nm md = (''Core'', [(''name'', Val nm), (''module'', Val md)])"

definition demo_manifests :: "(path \<times> config) list" where
  "demo_manifests =
     [([''/'', ''site'', ''plugins'', ''x.plugin''],
       \<lparr>cfg_defaults = [],
        cfg_sections =
          [demo_core ''X'' ''x'',
           (''Documentation'', [(''description'', Val ''Compile X pages'')]),
           (''Nikola'', [(''plugincategory'', Val ''Compiler''), (''compiler'', Val ''x'')])]\<rparr>),
      ([''/'', ''site'', ''plugins'', ''n.plugin''],
       \<lparr>cfg_defaults = [], cfg_sections = [demo_core ''N'' ''n'', (''Nikola'', [])]\<rparr>),
      ([''/'', ''site'', ''plugins'', ''a.plugin''],
       \<lparr>cfg_defaults = [],
        cfg_sections = [demo_core ''A'' ''a'', (''Nikola'', [(''plugincategory'', Val ''Alien'')])]\<rparr>),
      ([''/'', ''site'', ''plugins'', ''c.plugin''],
       \<lparr>cfg_defaults = [], cfg_sections = [demo_core ''C'' ''c'']\<rparr>),
      ([''/'', ''site'', ''broken'', ''b.plugin''],
       \<lparr>cfg_defaults = [],
        cfg_sections = [(''Nikola'', [(''plugincategory'', Val ''Task'')])]\<rparr>)]"

definition demo_x_vars :: "(string \<times> py_value) list" where
  \<comment> \<open>the module imports the capability type and defines one plugin class\<close>
  "demo_x_vars =
     [(''PageCompiler'', PyClass \<lparr>cls_id = 1, cls_mro = [1, 0], cls_ctor = CtorRaises\<rparr>),
      (''VERSION'', PyOther),
      (''CompileX'', PyClass \<lparr>cls_id = 10, cls_mro = [10, 1, 0], cls_ctor = CtorReturns\<rparr>)]"

definition demo_ctor_vars :: "(string \<times> py_value) list" where
  \<comment> \<open>one plugin class, whose constructor wants an argument\<close>
  "demo_ctor_vars =
     [(''NeedsArgs'', PyClass \<lparr>cls_id = 13, cls_mro = [13, 2, 0], cls_ctor = CtorRaises\<rparr>)]"

definition demo_code :: "(path \<times> exec_result) list" where
  "demo_code =
     [([''/'', ''site'', ''plugins'', ''x.py''], ExecOk demo_x_vars),
      ([''/'', ''site'', ''plugins'', ''boom.py''], ExecRaises),
      ([''/'', ''site'', ''plugins'', ''none.py''],
       ExecOk [(''Task'', PyClass \<lparr>cls_id = 2, cls_mro = [2, 0], cls_ctor = CtorRaises\<rparr>),
               (''helper'', PyOther)]),
      ([''/'', ''site'', ''plugins'', ''two.py''],
       ExecOk [(''First'', PyClass \<lparr>cls_id = 11, cls_mro = [11, 2, 0], cls_ctor = CtorReturns\<rparr>),
               (''Second'', PyClass \<lparr>cls_id = 12, cls_mro = [12, 2, 0], cls_ctor = CtorReturns\<rparr>)]),
      ([''/'', ''site'', ''plugins'', ''ctor'', ''__init__.py''], ExecOk demo_ctor_vars),
      ([''/'', ''site'', ''plugins'', ''root.py''], ExecRaises)]"

definition demo_fs :: filesystem where
  \<comment> \<open>a file that is not there reads as an empty configuration; \<^verbatim>\<open>exists()\<close> raises
      on a path with a component of more than 255 characters\<close>
  "demo_fs =
     \<lparr>rglob_plugin = (\<lambda>place. filter (prefix place) (map fst demo_manifests)),
      read_manifest = (\<lambda>p. case map_of demo_manifests p of
                              Some c \<Rightarrow> Parsed c
                            | None \<Rightarrow> Parsed \<lparr>cfg_defaults = [], cfg_sections = []\<rparr>),
      path_exists = (\<lambda>p. if list_ex (\<lambda>part. 255 < length part) p then Inl OSError
                         else Inr (p \<in> set (map fst demo_code))),
      exec_module = (\<lambda>p. case map_of demo_code p of Some r \<Rightarrow> r | None \<Rightarrow> ExecRaises)\<rparr>"

definition demo_env_root :: env where
  \<comment> \<open>the package installed under a directory that is named like a module file\<close>
  "demo_env_root = demo_env\<lparr>plugins_root := [''/'', ''site'', ''plugins'', ''root.py'']\<rparr>"

definition demo_process :: process where
  "demo_process = \<lparr>sys_modules = Map.empty, effects = [], next_id = 100, logger = []\<rparr>"

definition demo_candidate :: "string \<Rightarrow> string \<Rightarrow> string \<Rightarrow> plugin_candidate" where
  "demo_candidate nm md cat =
     \<lparr>name = nm, description = None,
      plugin_id = ''Plugin '' @ nm @ '' from /site/plugins/'' @ md @ ''.plugin'',
      category = cat, compiler = None,
      source_dir = [''/'', ''site'', ''plugins''], module_name = md\<rparr>"

definition demo_long_name :: string where
  \<comment> \<open>longer than a file name may be\<close>
  "demo_long_name = replicate 300 (CHR ''m'')"

definition demo_batch :: "plugin_candidate list" where
  "demo_batch =
     [demo_candidate ''Boom'' ''boom'' ''Task'',
      demo_candidate ''Gone'' ''gone'' ''Task'',
      demo_candidate ''Two'' ''two'' ''Task'',
      demo_candidate ''None'' ''none'' ''Task'',
      demo_candidate ''Ctor'' ''ctor'' ''Task'',
      demo_candidate ''X'' ''x'' ''PageCompiler'']"

definition demo_pair :: "plugin_candidate list" where
  "demo_pair = [demo_candidate ''Boom'' ''boom'' ''Task'', demo_candidate ''X'' ''x'' ''PageCompiler'']"

definition demo_plugin :: "string \<Rightarrow> string \<Rightarrow> nat \<Rightarrow> plugin_info" where
  "demo_plugin nm cat k =
     \<lparr>name = nm, description = None, plugin_id = ''Plugin '' @ nm, category = cat,
      compiler = None, source_dir = [''/'', ''site'', ''plugins''], module_name = nm,
      module_object = \<lparr>mod_id = k, mod_name = nm, mod_origin = [], mod_vars = []\<rparr>,
      plugin_object = \<lparr>inst_id = Suc k, inst_cls = 10\<rparr>\<rparr>"

definition demo_loaded :: pm_state where
  \<comment> \<open>a manager that holds two plugins of one name\<close>
  "demo_loaded =
     (init [] demo_process)
       \<lparr>plugins := [demo_plugin ''dup'' ''Task'' 100, demo_plugin ''dup'' ''PageCompiler'' 102],
        plugins_by_category :=
          [''Task'' \<mapsto> [demo_plugin ''dup'' ''Task'' 100],
           ''PageCompiler'' \<mapsto> [demo_plugin ''dup'' ''PageCompiler'' 102]]\<rparr>"

definition demo_caller :: "int \<Rightarrow> frame_summary" where
  "demo_caller line = \<lparr>fr_name = ''render'', fr_filename = ''site.py'', fr_lineno = Some line\<rparr>"

section \<open>Properties\<close>

subsection \<open>Scanning manifests\<close>



lemma scan_manifest_category:
  assumes "cfg_item config ''Core'' ''name'' = Inr nm"
    and "cfg_item config ''Core'' ''module'' = Inr md"
    and "(if cfg_contains config ''Documentation''
          then cfg_get config ''Documentation'' ''Description'' else Inr None) = Inr ds"
    and "cfg_contains config ''Nikola''"
    and "cfg_get config ''Nikola'' ''PluginCategory'' = Inr (Some d)"
    and "cfg_get config ''Nikola'' ''Compiler'' = Inr cp"
    and "d \<noteq> []"
  shows "scan_manifest E f (Parsed config) =
           (if canonical_category d \<notin> CATEGORY_NAMES E
            then Inr (Log Warning (''Plugin '' @ nm @ '' from '' @ path_str f @
                   '' specifies invalid category '' @ [CHR 0x27] @ canonical_category d @
                   [CHR 0x27]) [], None)
            else Inr (Log Debug (''Discovered '' @ ''Plugin '' @ nm @ '' from '' @ path_str f) [],
                   Some \<lparr>name = nm, description = ds,
                         plugin_id = ''Plugin '' @ nm @ '' from '' @ path_str f,
                         category = canonical_category d, compiler = cp,
                         source_dir = parent f, module_name = md\<rparr>))"
  unfolding scan_manifest_def Let_def manifest_file.case assms(1,2,3,5,6) sum.case
  using assms(4,7) by simp



lemma locate_loop_all_scanned:
  assumes "\<forall>f\<in>set files. \<not> isl (scan_manifest E f (read_manifest fs f))"
  shows "locate_loop E fs files s =
           (Inr (), s\<lparr>logger := logger s @
                        map (\<lambda>f. fst (projr (scan_manifest E f (read_manifest fs f)))) files,
                      candidates := candidates s @
                        concat (map (\<lambda>f. case snd (projr (scan_manifest E f (read_manifest fs f)))
                                         of None \<Rightarrow> [] | Some c \<Rightarrow> [c]) files)\<rparr>)"
  using assms
proof (induction files arbitrary: s)
  case Nil
  show ?case by simp
next
  case (Cons f files)
  from Cons.prems obtain line found
    where sc: "scan_manifest E f (read_manifest fs f) = Inr (line, found)"
    by (cases "scan_manifest E f (read_manifest fs f)") auto
  have rest: "\<forall>f\<in>set files. \<not> isl (scan_manifest E f (read_manifest fs f))"
    using Cons.prems by simp
  show ?case
    by (simp add: locate_one_def sc Cons.IH [OF rest])
qed

lemma locate_loop_returns:
  assumes "locate_loop E fs files s = (Inr u, s')"
  shows "\<forall>f\<in>set files. \<not> isl (scan_manifest E f (read_manifest fs f))"
  using assms
proof (induction files arbitrary: s)
  case Nil
  show ?case by simp
next
  case (Cons f files)
  then show ?case
    by (cases "scan_manifest E f (read_manifest fs f)")
       (auto simp add: locate_one_def split: prod.splits)
qed

lemma scan_manifest_legacy:
  assumes "scan_manifest E f (Parsed config) = Inr (line, found)"
    and "cfg_get config ''Nikola'' ''PluginCategory'' = Inr (Some declared)"
    and "map_of LEGACY_PLUGIN_NAMES declared = Some canonical"
  shows "case found of
           None \<Rightarrow> canonical \<notin> CATEGORY_NAMES E
         | Some c \<Rightarrow> category c = canonical \<and> canonical \<in> CATEGORY_NAMES E"
proof -
  have sec: "cfg_contains config ''Nikola''"
    using assms(2) by (auto simp add: cfg_get_def cfg_options_def cfg_contains_def split: option.splits if_splits)
  have ne: "declared \<noteq> []"
    using assms(3) by (auto simp add: LEGACY_PLUGIN_NAMES_def split: if_splits)
  have can: "canonical_category declared = canonical"
    using assms(3) by (simp add: canonical_category_def)
  from assms(1) obtain nm where nm: "cfg_item config ''Core'' ''name'' = Inr nm"
    by (cases "cfg_item config ''Core'' ''name''") (simp_all add: scan_manifest_def)
  from assms(1) nm obtain md where md: "cfg_item config ''Core'' ''module'' = Inr md"
    by (cases "cfg_item config ''Core'' ''module''") (simp_all add: scan_manifest_def)
  from assms(1) nm md obtain ds where
    ds: "(if cfg_contains config ''Documentation''
          then cfg_get config ''Documentation'' ''Description'' else Inr None) = Inr ds"
    by (cases "(if cfg_contains config ''Documentation''
          then cfg_get config ''Documentation'' ''Description'' else Inr None)")
       (simp_all add: scan_manifest_def)
  from assms(1) nm md ds sec assms(2) obtain cp where
    cp: "cfg_get config ''Nikola'' ''Compiler'' = Inr cp"
    by (cases "cfg_get config ''Nikola'' ''Compiler''") (simp_all add: scan_manifest_def)
  show ?thesis
    using scan_manifest_category [OF nm md ds sec assms(2) cp ne, of E f] assms(1) can
    by (auto split: if_splits)
qed








text \<open>
  C8. A manifest whose declared category is a key of the legacy table is judged by its
  canonical name: whenever \<^verbatim>\<open>locate_plugins\<close> returns, the scan of that manifest either
  emitted a candidate, which then carries the canonical category and is in the returned
  list, or skipped it because the canonical name is not registered. The table maps
  \<^verbatim>\<open>Compiler\<close> to \<^verbatim>\<open>PageCompiler\<close>.
\<close>

theorem legacy_category_is_canonical:
  assumes "f \<in> set (plugin_files fs (plugin_places s))"
    and "read_manifest fs f = Parsed config"
    and "cfg_get config ''Nikola'' ''PluginCategory'' = Inr (Some declared)"
    and "map_of LEGACY_PLUGIN_NAMES declared = Some canonical"
    and "fst (locate_plugins E fs s) = Inr cs"
  shows "(\<exists>line found.
           scan_manifest E f (Parsed config) = Inr (line, found) \<and>
           (case found of
              None \<Rightarrow> canonical \<notin> CATEGORY_NAMES E
            | Some c \<Rightarrow> category c = canonical \<and> canonical \<in> CATEGORY_NAMES E \<and> c \<in> set cs)) \<and>
         map_of LEGACY_PLUGIN_NAMES ''Compiler'' = Some ''PageCompiler''"
proof -
  let ?files = "plugin_files fs (plugin_places s)"
  obtain r t where loop: "locate_loop E fs ?files (s\<lparr>candidates := []\<rparr>) = (r, t)"
    by (cases "locate_loop E fs ?files (s\<lparr>candidates := []\<rparr>)")
  with assms(5) obtain u where r: "r = Inr u" and cs: "cs = candidates t"
    by (cases r) (auto simp add: locate_plugins_def)
  have ok: "\<forall>f\<in>set ?files. \<not> isl (scan_manifest E f (read_manifest fs f))"
    using locate_loop_returns [OF loop [unfolded r]] .
  with assms(1,2) obtain line found where
    sc: "scan_manifest E f (Parsed config) = Inr (line, found)"
    by (cases "scan_manifest E f (Parsed config)") auto
  have "c \<in> set cs" if "found = Some c" for c
  proof -
    have "c \<in> set (concat (map (\<lambda>f. case snd (projr (scan_manifest E f (read_manifest fs f)))
                                     of None \<Rightarrow> [] | Some c \<Rightarrow> [c]) ?files))"
      using assms(1,2) sc that by (auto intro!: bexI [of _ f])
    moreover have "candidates t =
        concat (map (\<lambda>f. case snd (projr (scan_manifest E f (read_manifest fs f)))
                          of None \<Rightarrow> [] | Some c \<Rightarrow> [c]) ?files)"
      using loop by (auto simp add: locate_loop_all_scanned [OF ok])
    ultimately show ?thesis
      using cs by simp
  qed
  with scan_manifest_legacy [OF sc assms(3,4)] sc
  have "\<exists>line found.
           scan_manifest E f (Parsed config) = Inr (line, found) \<and>
           (case found of
              None \<Rightarrow> canonical \<notin> CATEGORY_NAMES E
            | Some c \<Rightarrow> category c = canonical \<and> canonical \<in> CATEGORY_NAMES E \<and> c \<in> set cs)"
    by (auto split: option.splits)
  moreover have "map_of LEGACY_PLUGIN_NAMES ''Compiler'' = Some ''PageCompiler''"
    by (simp add: LEGACY_PLUGIN_NAMES_def)
  ultimately show ?thesis ..
qed

theorem legacy_category_is_canonical_witness:
  "[''/'', ''site'', ''plugins'', ''x.plugin''] \<in>
     set (plugin_files demo_fs
            (plugin_places (init [[''/'', ''site'', ''plugins'']] demo_process))) \<and>
   read_manifest demo_fs [''/'', ''site'', ''plugins'', ''x.plugin''] =
     Parsed (snd (demo_manifests ! 0)) \<and>
   cfg_get (snd (demo_manifests ! 0)) ''Nikola'' ''PluginCategory'' = Inr (Some ''Compiler'') \<and>
   map_of LEGACY_PLUGIN_NAMES ''Compiler'' = Some ''PageCompiler'' \<and>
   fst (locate_plugins demo_env demo_fs (init [[''/'', ''site'', ''plugins'']] demo_process)) =
     Inr [\<lparr>name = ''X'', description = Some ''Compile X pages'',
           plugin_id = ''Plugin X from /site/plugins/x.plugin'',
           category = ''PageCompiler'', compiler = Some ''x'',
           source_dir = [''/'', ''site'', ''plugins''], module_name = ''x''\<rparr>] \<and>
   (\<exists>line found.
      scan_manifest demo_env [''/'', ''site'', ''plugins'', ''x.plugin'']
        (Parsed (snd (demo_manifests ! 0))) = Inr (line, found) \<and>
      (case found of
         None \<Rightarrow> ''PageCompiler'' \<notin> CATEGORY_NAMES demo_env
       | Some c \<Rightarrow>
           category c = ''PageCompiler'' \<and> ''PageCompiler'' \<in> CATEGORY_NAMES demo_env \<and>
           c \<in> set [\<lparr>name = ''X'', description = Some ''Compile X pages'',
                      plugin_id = ''Plugin X from /site/plugins/x.plugin'',
                      category = ''PageCompiler'', compiler = Some ''x'',
                      source_dir = [''/'', ''site'', ''plugins''], module_name = ''x''\<rparr>]))"
proof -
  let ?s = "init [[''/'', ''site'', ''plugins'']] demo_process"
  let ?f = "[''/'', ''site'', ''plugins'', ''x.plugin'']"
  let ?config = "snd (demo_manifests ! 0)"
  have h1: "?f \<in> set (plugin_files demo_fs (plugin_places ?s))"
    by code_simp
  have h2: "read_manifest demo_fs ?f = Parsed ?config"
    by code_simp
  have h3: "cfg_get ?config ''Nikola'' ''PluginCategory'' = Inr (Some ''Compiler'')"
    by code_simp
  have h4: "map_of LEGACY_PLUGIN_NAMES ''Compiler'' = Some ''PageCompiler''"
    by code_simp
  have h5: "fst (locate_plugins demo_env demo_fs ?s) =
     Inr [\<lparr>name = ''X'', description = Some ''Compile X pages'',
           plugin_id = ''Plugin X from /site/plugins/x.plugin'',
           category = ''PageCompiler'', compiler = Some ''x'',
           source_dir = [''/'', ''site'', ''plugins''], module_name = ''x''\<rparr>]"
    by code_simp
  from legacy_category_is_canonical [OF h1 h2 h3 h4 h5] h1 h2 h3 h4 h5 show ?thesis
    by blast
qed

subsection \<open>Loading candidates\<close>

text \<open>The qualified name, on a file under \<^verbatim>\<open>plugins_root\<close>, a package, a file elsewhere,
  and \<^verbatim>\<open>plugins_root\<close> itself.\<close>

lemma full_module_name_examples:
  "full_module_name demo_env
     [''/'', ''opt'', ''nikola'', ''nikola'', ''plugins'', ''task'', ''foo.py''] ''foo'' =
     Inr ''nikola.plugins.task.foo''"
  "full_module_name demo_env
     [''/'', ''opt'', ''nikola'', ''nikola'', ''plugins'', ''task'', ''pkg'', ''__init__.py'']
     ''pkg'' = Inr ''nikola.plugins.task.pkg''"
  "full_module_name demo_env [''/'', ''site'', ''plugins'', ''x.py''] ''x'' = Inr ''x''"
  "full_module_name demo_env [''/'', ''opt'', ''nikola''] ''nikola'' = Inl IndexError"
  by code_simp+

lemma load_one_aborts:
  assumes "fate E fs c = Aborts"
  shows "\<exists>e. load_one E fs c s = (Inl e, s)"
  using assms
  by (auto simp add: fate_def load_one_def
      split: option.splits sum.splits exec_result.splits list.splits ctor_result.splits)

lemma load_one_returns:
  assumes "fate E fs c \<noteq> Aborts"
  shows "fst (load_one E fs c s) = Inr ()"
  using assms
  by (auto simp add: fate_def load_one_def Let_def
      split: option.splits sum.splits exec_result.splits list.splits ctor_result.splits)

lemma load_one_logger:
  assumes "fate E fs c \<noteq> Aborts"
  shows "logger (snd (load_one E fs c s)) = logger s @ [fate_line E fs c]"
  using assms
  by (auto simp add: fate_def fate_line_def load_one_def Let_def emit_def
      split: option.splits sum.splits exec_result.splits list.splits ctor_result.splits)

lemma load_one_plugins_skip:
  assumes "fate E fs c \<noteq> Loads"
  shows "plugins (snd (load_one E fs c s)) = plugins s"
  using assms
  by (auto simp add: fate_def load_one_def Let_def emit_def
      split: option.splits sum.splits exec_result.splits list.splits ctor_result.splits)

lemma load_one_plugins_loads:
  assumes "fate E fs c = Loads"
  shows "\<exists>p. plugins (snd (load_one E fs c s)) = plugins s @ [p] \<and>
             plugin_candidate.truncate p = c"
  using assms
  by (auto simp add: fate_def load_one_def Let_def emit_def plugin_candidate.truncate_def
      split: option.splits sum.splits exec_result.splits list.splits ctor_result.splits)

lemma load_one_frame:
  "plugin_places (snd (load_one E fs c s)) = plugin_places s \<and>
   candidates (snd (load_one E fs c s)) = candidates s \<and>
   plugins_by_category (snd (load_one E fs c s)) = plugins_by_category s \<and>
   deprecation_already_warned (snd (load_one E fs c s)) = deprecation_already_warned s"
  by (auto simp add: load_one_def Let_def emit_def
      split: option.splits sum.splits exec_result.splits list.splits ctor_result.splits)


lemma load_loop_outcome:
  "fst (load_loop E fs cands s) = Inr () \<longleftrightarrow> run E fs cands = cands"
proof (induction cands arbitrary: s)
  case Nil
  show ?case by (simp add: run_def)
next
  case (Cons c cands)
  show ?case
  proof (cases "fate E fs c = Aborts")
    case True
    from load_one_aborts [OF True, of s] obtain e where
      "load_one E fs c s = (Inl e, s)" ..
    with True show ?thesis by (simp add: run_def)
  next
    case False
    from load_one_returns [OF False, of s] obtain t where
      "load_one E fs c s = (Inr (), t)"
      by (cases "load_one E fs c s") auto
    then show ?thesis
      using False Cons.IH [of t] by (simp add: run_def)
  qed
qed

lemma load_loop_logger:
  "logger (snd (load_loop E fs cands s)) = logger s @ map (fate_line E fs) (run E fs cands)"
proof (induction cands arbitrary: s)
  case Nil
  show ?case by (simp add: run_def)
next
  case (Cons c cands)
  show ?case
  proof (cases "fate E fs c = Aborts")
    case True
    from load_one_aborts [OF True, of s] obtain e where
      "load_one E fs c s = (Inl e, s)" ..
    with True show ?thesis by (simp add: run_def)
  next
    case False
    from load_one_returns [OF False, of s] obtain t where
      t: "load_one E fs c s = (Inr (), t)"
      by (cases "load_one E fs c s") auto
    then show ?thesis
      using False Cons.IH [of t] load_one_logger [OF False, of s] by (simp add: run_def)
  qed
qed

lemma load_loop_plugins:
  "\<exists>ps. plugins (snd (load_loop E fs cands s)) = plugins s @ ps \<and>
        map plugin_candidate.truncate ps = filter (\<lambda>c. fate E fs c = Loads) (run E fs cands)"
proof (induction cands arbitrary: s)
  case Nil
  show ?case by (simp add: run_def)
next
  case (Cons c cands)
  show ?case
  proof (cases "fate E fs c = Aborts")
    case True
    from load_one_aborts [OF True, of s] obtain e where
      "load_one E fs c s = (Inl e, s)" ..
    with True show ?thesis by (simp add: run_def)
  next
    case False
    from load_one_returns [OF False, of s] obtain t where
      t: "load_one E fs c s = (Inr (), t)"
      by (cases "load_one E fs c s") auto
    from Cons.IH [of t] obtain ps where
      ps: "plugins (snd (load_loop E fs cands t)) = plugins t @ ps"
          "map plugin_candidate.truncate ps = filter (\<lambda>c. fate E fs c = Loads) (run E fs cands)"
      by blast
    show ?thesis
    proof (cases "fate E fs c = Loads")
      case True
      from load_one_plugins_loads [OF True, of s] t obtain p where
        "plugins t = plugins s @ [p]" "plugin_candidate.truncate p = c"
        by auto
      with ps t False True show ?thesis
        by (simp add: run_def)
    next
      case notloaded: False
      from load_one_plugins_skip [OF notloaded, of s] t have "plugins t = plugins s"
        by simp
      with ps t False notloaded show ?thesis
        by (simp add: run_def)
    qed
  qed
qed

lemma load_loop_frame:
  "plugin_places (snd (load_loop E fs cands s)) = plugin_places s \<and>
   candidates (snd (load_loop E fs cands s)) = candidates s \<and>
   plugins_by_category (snd (load_loop E fs cands s)) = plugins_by_category s \<and>
   deprecation_already_warned (snd (load_loop E fs cands s)) = deprecation_already_warned s"
proof (induction cands arbitrary: s)
  case Nil
  show ?case by simp
next
  case (Cons c cands)
  obtain r t where t: "load_one E fs c s = (r, t)"
    by (cases "load_one E fs c s")
  with load_one_frame [of E fs c s] Cons.IH [of t] show ?case
    by (cases r) simp_all
qed

lemma index_loop_frame:
  "\<exists>m. snd (index_loop ps s) = s\<lparr>plugins_by_category := m\<rparr>"
proof (induction ps arbitrary: s)
  case Nil
  have "s = s\<lparr>plugins_by_category := plugins_by_category s\<rparr>" by simp
  then show ?case by (metis index_loop.simps(1) snd_conv)
next
  case (Cons p ps)
  show ?case
  proof (cases "plugins_by_category s (category p)")
    case None
    have "s = s\<lparr>plugins_by_category := plugins_by_category s\<rparr>" by simp
    with None show ?thesis by (metis index_loop.simps(2) option.simps(4) snd_conv)
  next
    case (Some entry)
    from Cons.IH [of "s\<lparr>plugins_by_category :=
        (plugins_by_category s)(category p \<mapsto> entry @ [p])\<rparr>"] Some
    show ?thesis by auto
  qed
qed

lemma index_loop_outcome:
  "fst (index_loop ps s) = Inr () \<longleftrightarrow>
     (\<forall>p\<in>set ps. category p \<in> dom (plugins_by_category s))"
proof (induction ps arbitrary: s)
  case Nil
  show ?case by simp
next
  case (Cons p ps)
  show ?case
  proof (cases "plugins_by_category s (category p)")
    case None
    then show ?thesis by auto
  next
    case (Some entry)
    then show ?thesis
      using Cons.IH [of "s\<lparr>plugins_by_category :=
        (plugins_by_category s)(category p \<mapsto> entry @ [p])\<rparr>"]
      by (auto simp add: dom_def)
  qed
qed

lemma index_loop_entries:
  assumes "fst (index_loop ps s) = Inr ()"
  shows "plugins_by_category (snd (index_loop ps s)) c =
           map_option (\<lambda>entry. entry @ filter (\<lambda>p. category p = c) ps)
             (plugins_by_category s c)"
  using assms
proof (induction ps arbitrary: s)
  case Nil
  show ?case by (simp add: option.map_ident)
next
  case (Cons p ps)
  show ?case
  proof (cases "plugins_by_category s (category p)")
    case None
    with Cons.prems show ?thesis by simp
  next
    case (Some entry)
    let ?t = "s\<lparr>plugins_by_category := (plugins_by_category s)(category p \<mapsto> entry @ [p])\<rparr>"
    from Cons.prems Some have "fst (index_loop ps ?t) = Inr ()" by simp
    from Cons.IH [OF this] Some show ?thesis
      by (cases "plugins_by_category s c") auto
  qed
qed


lemma load_plugins_fields:
  "plugins (snd (load_plugins E fs cands s)) = plugins (snd (load_loop E fs cands s)) \<and>
   logger (snd (load_plugins E fs cands s)) = logger (snd (load_loop E fs cands s)) \<and>
   effects (snd (load_plugins E fs cands s)) = effects (snd (load_loop E fs cands s)) \<and>
   sys_modules (snd (load_plugins E fs cands s)) = sys_modules (snd (load_loop E fs cands s)) \<and>
   next_id (snd (load_plugins E fs cands s)) = next_id (snd (load_loop E fs cands s)) \<and>
   candidates (snd (load_plugins E fs cands s)) = candidates s \<and>
   plugin_places (snd (load_plugins E fs cands s)) = plugin_places s \<and>
   deprecation_already_warned (snd (load_plugins E fs cands s)) = deprecation_already_warned s"
proof -
  obtain r t where loop: "load_loop E fs cands s = (r, t)"
    by (cases "load_loop E fs cands s")
  have frame: "candidates t = candidates s" "plugin_places t = plugin_places s"
    "deprecation_already_warned t = deprecation_already_warned s"
    using load_loop_frame [of E fs cands s] loop by simp_all
  show ?thesis
  proof (cases r)
    case (Inl e)
    with loop frame show ?thesis by (simp add: load_plugins_def)
  next
    case (Inr u)
    let ?t = "t\<lparr>plugins_by_category := (\<lambda>c. if c \<in> CATEGORY_NAMES E then Some [] else None)\<rparr>"
    from index_loop_frame [of "plugins t" ?t] obtain m where
      "snd (index_loop (plugins t) ?t) = ?t\<lparr>plugins_by_category := m\<rparr>" ..
    with loop Inr frame show ?thesis by (simp add: load_plugins_def)
  qed
qed

lemma load_plugins_outcome:
  "fst (load_plugins E fs cands s) = Inr () \<longleftrightarrow>
     run E fs cands = cands \<and>
     (\<forall>p\<in>set (plugins (snd (load_plugins E fs cands s))). category p \<in> CATEGORY_NAMES E)"
proof -
  obtain r t where loop: "load_loop E fs cands s = (r, t)"
    by (cases "load_loop E fs cands s")
  have pl: "plugins (snd (load_plugins E fs cands s)) = plugins t"
    using load_plugins_fields [of E fs cands s] loop by simp
  have r: "r = Inr () \<longleftrightarrow> run E fs cands = cands"
    using load_loop_outcome [of E fs cands s] loop by simp
  show ?thesis
  proof (cases "run E fs cands = cands")
    case False
    with r obtain e where "r = Inl e" by (cases r) simp_all
    with False loop show ?thesis by (simp add: load_plugins_def)
  next
    case True
    let ?t = "t\<lparr>plugins_by_category := (\<lambda>c. if c \<in> CATEGORY_NAMES E then Some [] else None)\<rparr>"
    have "dom (plugins_by_category ?t) = CATEGORY_NAMES E"
      by (auto simp add: dom_def)
    with index_loop_outcome [of "plugins t" ?t] True r loop pl show ?thesis
      by (simp add: load_plugins_def)
  qed
qed

lemma fate_line_failure:
  assumes "fate E fs c \<noteq> Loads" and "fate E fs c \<noteq> Aborts"
  shows "lvl (fate_line E fs c) \<noteq> Debug \<and>
         (\<exists>m. fate_line E fs c = Log (lvl (fate_line E fs c)) (plugin_id c @ m) [])"
proof (cases "py_file_location fs c")
  case (Inl e)
  with assms show ?thesis by (simp add: fate_def)
next
  case (Inr found)
  show ?thesis
  proof (cases found)
    case None
    with Inr show ?thesis by (simp add: fate_line_def)
  next
    case (Some py)
    with Inr have "fate E fs c \<noteq> NoModule"
      by (simp add: fate_def
          split: sum.splits exec_result.splits list.splits ctor_result.splits)
    with assms Inr Some show ?thesis
      by (cases "fate E fs c") (simp_all add: fate_line_def)
  qed
qed

text \<open>
  What \<^verbatim>\<open>load_plugins\<close> does with the candidates its loop reaches: it appends exactly
  those that load, in order, and logs one line for each; for a candidate that fails (no
  code file, an exception while executing, no or several plugin classes, an exception
  while instantiating) that line is a warning or an exception trace that starts with the
  candidate's id, and nothing is appended.
\<close>

lemma load_plugins_reached:
  "(\<exists>ps. plugins (snd (load_plugins E fs cands s)) = plugins s @ ps \<and>
         map plugin_candidate.truncate ps = filter (\<lambda>c. fate E fs c = Loads) (run E fs cands)) \<and>
   logger (snd (load_plugins E fs cands s)) = logger s @ map (fate_line E fs) (run E fs cands) \<and>
   (\<forall>c\<in>set (run E fs cands). fate E fs c \<noteq> Loads \<longrightarrow>
      lvl (fate_line E fs c) \<noteq> Debug \<and>
      (\<exists>m. fate_line E fs c = Log (lvl (fate_line E fs c)) (plugin_id c @ m) [])) \<and>
   (run E fs cands = cands \<longleftrightarrow> (\<forall>c\<in>set cands. fate E fs c \<noteq> Aborts)) \<and>
   (fst (load_plugins E fs cands s) = Inr () \<longleftrightarrow>
      run E fs cands = cands \<and>
      (\<forall>p\<in>set (plugins (snd (load_plugins E fs cands s))). category p \<in> CATEGORY_NAMES E))"
proof -
  have a: "\<exists>ps. plugins (snd (load_plugins E fs cands s)) = plugins s @ ps \<and>
         map plugin_candidate.truncate ps = filter (\<lambda>c. fate E fs c = Loads) (run E fs cands)"
    using load_loop_plugins [of E fs cands s] load_plugins_fields [of E fs cands s] by simp
  have b: "logger (snd (load_plugins E fs cands s)) =
      logger s @ map (fate_line E fs) (run E fs cands)"
    using load_loop_logger [of E fs cands s] load_plugins_fields [of E fs cands s] by simp
  have c: "\<forall>c\<in>set (run E fs cands). fate E fs c \<noteq> Loads \<longrightarrow>
      lvl (fate_line E fs c) \<noteq> Debug \<and>
      (\<exists>m. fate_line E fs c = Log (lvl (fate_line E fs c)) (plugin_id c @ m) [])"
  proof (intro ballI impI)
    fix c assume "c \<in> set (run E fs cands)" and nl: "fate E fs c \<noteq> Loads"
    then have "fate E fs c \<noteq> Aborts"
      by (auto simp add: run_def dest: set_takeWhileD)
    with nl show "lvl (fate_line E fs c) \<noteq> Debug \<and>
      (\<exists>m. fate_line E fs c = Log (lvl (fate_line E fs c)) (plugin_id c @ m) [])"
      by (rule fate_line_failure)
  qed
  have d: "run E fs cands = cands \<longleftrightarrow> (\<forall>c\<in>set cands. fate E fs c \<noteq> Aborts)"
    by (simp add: run_def takeWhile_eq_all_conv)
  from a b c d load_plugins_outcome [of E fs cands s] show ?thesis
    by blast
qed

text \<open>
  C4 fails on the code. The handlers of the loop catch what executing a file and
  instantiating a class raise, but \<^verbatim>\<open>exists()\<close> is called outside them and the
  handler around the computation of the qualified name catches \<^verbatim>\<open>ValueError\<close> only.
  In a batch of a candidate whose code raises, a candidate whose module name is too long
  for the file system and a valid candidate, the first is logged and skipped, the second
  ends the call with \<^verbatim>\<open>OSError\<close>, and the valid one is never loaded. A candidate
  whose code file is \<^verbatim>\<open>plugins_root\<close> itself does the same with \<^verbatim>\<open>IndexError\<close>.
\<close>

theorem one_candidate_aborts_the_batch:
  "fate demo_env demo_fs (demo_candidate ''X'' ''x'' ''PageCompiler'') = Loads \<and>
   fst (load_plugins demo_env demo_fs
          [demo_candidate ''Boom'' ''boom'' ''Task'',
           demo_candidate ''Long'' demo_long_name ''Task'',
           demo_candidate ''X'' ''x'' ''PageCompiler'']
          (init [] demo_process)) = Inl OSError \<and>
   plugins (snd (load_plugins demo_env demo_fs
          [demo_candidate ''Boom'' ''boom'' ''Task'',
           demo_candidate ''Long'' demo_long_name ''Task'',
           demo_candidate ''X'' ''x'' ''PageCompiler'']
          (init [] demo_process))) = [] \<and>
   fate demo_env_root demo_fs (demo_candidate ''X'' ''x'' ''PageCompiler'') = Loads \<and>
   fst (load_plugins demo_env_root demo_fs
          [demo_candidate ''Boom'' ''boom'' ''Task'',
           demo_candidate ''Root'' ''root'' ''Task'',
           demo_candidate ''X'' ''x'' ''PageCompiler'']
          (init [] demo_process)) = Inl IndexError \<and>
   plugins (snd (load_plugins demo_env_root demo_fs
          [demo_candidate ''Boom'' ''boom'' ''Task'',
           demo_candidate ''Root'' ''root'' ''Task'',
           demo_candidate ''X'' ''x'' ''PageCompiler'']
          (init [] demo_process))) = []"
  by code_simp

lemma truncate_fields:
  assumes "plugin_candidate.truncate p = c"
  shows "name p = name c \<and> description p = description c \<and> plugin_id p = plugin_id c \<and>
         category p = category c \<and> compiler p = compiler c \<and>
         source_dir p = source_dir c \<and> module_name p = module_name c"
proof -
  have "name (plugin_candidate.truncate p) = name p"
    "description (plugin_candidate.truncate p) = description p"
    "plugin_id (plugin_candidate.truncate p) = plugin_id p"
    "category (plugin_candidate.truncate p) = category p"
    "compiler (plugin_candidate.truncate p) = compiler p"
    "source_dir (plugin_candidate.truncate p) = source_dir p"
    "module_name (plugin_candidate.truncate p) = module_name p"
    by (simp_all add: plugin_candidate.truncate_def)
  with assms show ?thesis by simp
qed

lemma fate_line_loads:
  assumes "fate E fs c = Loads"
  shows "\<exists>py. py_file_location fs c = Inr (Some py) \<and>
           fate_line E fs c =
             Log Debug (''Loaded '' @ plugin_id c @ '' ('' @ path_str py @ '')'') []"
proof (cases "py_file_location fs c")
  case (Inl e)
  with assms show ?thesis by (simp add: fate_def)
next
  case (Inr found)
  show ?thesis
  proof (cases found)
    case None
    with assms Inr show ?thesis by (simp add: fate_def)
  next
    case (Some py)
    with assms Inr show ?thesis by (simp add: fate_line_def)
  qed
qed

text \<open>
  C10. Every plugin that \<^verbatim>\<open>load_plugins\<close> appends comes from a candidate of the batch
  that loads, in batch order, and has that candidate's name, description, plugin_id,
  category, compiler, source_dir and module_name. The id with the code file's path
  appended appears in the log line of the load only: the stored \<^verbatim>\<open>plugin_id\<close> is
  the candidate's.
\<close>

theorem loaded_plugin_keeps_candidate_fields:
  "\<exists>ps. plugins (snd (load_plugins E fs cands s)) = plugins s @ ps \<and>
     list_all2
       (\<lambda>p c. name p = name c \<and> description p = description c \<and> plugin_id p = plugin_id c \<and>
              category p = category c \<and> compiler p = compiler c \<and>
              source_dir p = source_dir c \<and> module_name p = module_name c \<and>
              (\<exists>py. py_file_location fs c = Inr (Some py) \<and>
                 Log Debug (''Loaded '' @ plugin_id c @ '' ('' @ path_str py @ '')'') []
                   \<in> set (logger (snd (load_plugins E fs cands s)))))
       ps (filter (\<lambda>c. fate E fs c = Loads) (run E fs cands))"
proof -
  let ?s' = "snd (load_plugins E fs cands s)"
  let ?cs = "filter (\<lambda>c. fate E fs c = Loads) (run E fs cands)"
  from load_loop_plugins [of E fs cands s] load_plugins_fields [of E fs cands s]
  obtain ps where ps: "plugins ?s' = plugins s @ ps" "map plugin_candidate.truncate ps = ?cs"
    by auto
  have lg: "logger ?s' = logger s @ map (fate_line E fs) (run E fs cands)"
    using load_loop_logger [of E fs cands s] load_plugins_fields [of E fs cands s] by simp
  have len: "length ps = length ?cs"
    using ps(2) by (metis length_map)
  have "list_all2
       (\<lambda>p c. name p = name c \<and> description p = description c \<and> plugin_id p = plugin_id c \<and>
              category p = category c \<and> compiler p = compiler c \<and>
              source_dir p = source_dir c \<and> module_name p = module_name c \<and>
              (\<exists>py. py_file_location fs c = Inr (Some py) \<and>
                 Log Debug (''Loaded '' @ plugin_id c @ '' ('' @ path_str py @ '')'') []
                   \<in> set (logger ?s')))
       ps ?cs"
  proof (rule list_all2_all_nthI [OF len])
    fix i assume i: "i < length ps"
    with len have "i < length ?cs" by simp
    then have mem: "?cs ! i \<in> set ?cs" by (rule nth_mem)
    then have loads: "fate E fs (?cs ! i) = Loads" and reached: "?cs ! i \<in> set (run E fs cands)"
      by simp_all
    from i ps(2) have tr: "plugin_candidate.truncate (ps ! i) = ?cs ! i"
      by (metis nth_map)
    from fate_line_loads [OF loads] obtain py where
      py: "py_file_location fs (?cs ! i) = Inr (Some py)"
          "fate_line E fs (?cs ! i) =
             Log Debug (''Loaded '' @ plugin_id (?cs ! i) @ '' ('' @ path_str py @ '')'') []"
      by blast
    from reached have "fate_line E fs (?cs ! i) \<in> set (logger ?s')"
      unfolding lg by simp
    with py have "\<exists>py. py_file_location fs (?cs ! i) = Inr (Some py) \<and>
        Log Debug (''Loaded '' @ plugin_id (?cs ! i) @ '' ('' @ path_str py @ '')'') []
          \<in> set (logger ?s')"
      by simp
    with truncate_fields [OF tr]
    show "name (ps ! i) = name (?cs ! i) \<and> description (ps ! i) = description (?cs ! i) \<and>
          plugin_id (ps ! i) = plugin_id (?cs ! i) \<and> category (ps ! i) = category (?cs ! i) \<and>
          compiler (ps ! i) = compiler (?cs ! i) \<and> source_dir (ps ! i) = source_dir (?cs ! i) \<and>
          module_name (ps ! i) = module_name (?cs ! i) \<and>
          (\<exists>py. py_file_location fs (?cs ! i) = Inr (Some py) \<and>
             Log Debug (''Loaded '' @ plugin_id (?cs ! i) @ '' ('' @ path_str py @ '')'') []
               \<in> set (logger ?s'))"
      by (intro conjI) simp_all
  qed
  with ps(1) show ?thesis by (intro exI [of _ ps] conjI)
qed

theorem loaded_plugin_keeps_candidate_fields_witness:
  "\<exists>ps. plugins (snd (load_plugins demo_env demo_fs demo_batch (init [] demo_process))) =
          plugins (init [] demo_process) @ ps \<and>
     list_all2
       (\<lambda>p c. name p = name c \<and> description p = description c \<and> plugin_id p = plugin_id c \<and>
              category p = category c \<and> compiler p = compiler c \<and>
              source_dir p = source_dir c \<and> module_name p = module_name c \<and>
              (\<exists>py. py_file_location demo_fs c = Inr (Some py) \<and>
                 Log Debug (''Loaded '' @ plugin_id c @ '' ('' @ path_str py @ '')'') []
                   \<in> set (logger (snd (load_plugins demo_env demo_fs demo_batch
                                          (init [] demo_process))))))
       ps [demo_candidate ''X'' ''x'' ''PageCompiler'']"
proof -
  have reach: "run demo_env demo_fs demo_batch = demo_batch"
    by code_simp
  have loads: "filter (\<lambda>c. fate demo_env demo_fs c = Loads) demo_batch =
      [demo_candidate ''X'' ''x'' ''PageCompiler'']"
    by code_simp
  show ?thesis
    using loaded_plugin_keeps_candidate_fields [of demo_env demo_fs demo_batch "init [] demo_process"]
    unfolding reach loads .
qed












subsection \<open>Queries and the deprecated aliases\<close>

lemma first_match_find: "first_match n cat ps = find (matches n cat) ps"
  by (induction ps) (auto simp add: matches_def split: option.splits)

text \<open>
  C6, as the code has it. \<^verbatim>\<open>get_plugin_by_name\<close> returns the first plugin, in load
  order, whose name is the one given and whose category is the one given when one is
  given, and \<^verbatim>\<open>None\<close> when no loaded plugin is such. Without a category that is the
  first-loaded plugin of the name; with one, it is the first-loaded plugin of the name in
  that category, whatever was loaded under the name before it.
\<close>

theorem get_plugin_by_name_first_match:
  "get_plugin_by_name n cat s = find (matches n cat) (plugins s) \<and>
   get_plugin_by_name n None s = find (\<lambda>p. name p = n) (plugins s) \<and>
   (case get_plugin_by_name n cat s of
      None \<Rightarrow> list_all (\<lambda>p. \<not> matches n cat p) (plugins s)
    | Some p \<Rightarrow>
        (\<exists>i<length (plugins s).
           plugins s ! i = p \<and> matches n cat p \<and>
           (\<forall>j<i. \<not> matches n cat (plugins s ! j))))"
proof -
  have eq: "get_plugin_by_name n cat s = find (matches n cat) (plugins s)"
    by (simp add: get_plugin_by_name_def first_match_find)
  have "matches n None = (\<lambda>p. name p = n)"
    by (rule ext) (simp add: matches_def)
  then have by_name: "get_plugin_by_name n None s = find (\<lambda>p. name p = n) (plugins s)"
    by (simp add: get_plugin_by_name_def first_match_find)
  have "case find (matches n cat) (plugins s) of
      None \<Rightarrow> list_all (\<lambda>p. \<not> matches n cat p) (plugins s)
    | Some p \<Rightarrow>
        (\<exists>i<length (plugins s).
           plugins s ! i = p \<and> matches n cat p \<and>
           (\<forall>j<i. \<not> matches n cat (plugins s ! j)))"
  proof (cases "find (matches n cat) (plugins s)")
    case None
    then have "list_all (\<lambda>p. \<not> matches n cat p) (plugins s)"
      by (simp add: find_None_iff list_all_iff)
    with None show ?thesis by simp
  next
    case (Some p)
    then have "\<exists>i<length (plugins s).
        plugins s ! i = p \<and> matches n cat p \<and> (\<forall>j<i. \<not> matches n cat (plugins s ! j))"
      by (auto simp add: find_Some_iff)
    with Some show ?thesis by simp
  qed
  with eq by_name show ?thesis by simp
qed

text \<open>
  C6 as it is stated fails in its last clause: of two loaded plugins of one name, a query
  that names the category of the second returns the second-loaded one.
\<close>

theorem later_plugin_returned_for_category:
  "map name (plugins demo_loaded) = [''dup'', ''dup''] \<and>
   map category (plugins demo_loaded) = [''Task'', ''PageCompiler''] \<and>
   get_plugin_by_name ''dup'' (Some ''PageCompiler'') demo_loaded =
     Some (demo_plugin ''dup'' ''PageCompiler'' 102) \<and>
   get_plugin_by_name ''dup'' None demo_loaded = Some (demo_plugin ''dup'' ''Task'' 100)"
  by code_simp

theorem get_plugin_by_name_first_match_witness:
  "get_plugin_by_name ''dup'' None demo_loaded = Some (demo_plugin ''dup'' ''Task'' 100) \<and>
   get_plugin_by_name ''dup'' (Some ''PageCompiler'') demo_loaded =
     Some (demo_plugin ''dup'' ''PageCompiler'' 102) \<and>
   get_plugin_by_name ''absent'' None demo_loaded = None"
proof -
  have a: "find (matches ''dup'' None) (plugins demo_loaded) =
      Some (demo_plugin ''dup'' ''Task'' 100)"
    by code_simp
  have b: "find (matches ''dup'' (Some ''PageCompiler'')) (plugins demo_loaded) =
      Some (demo_plugin ''dup'' ''PageCompiler'' 102)"
    by code_simp
  have c: "find (matches ''absent'' None) (plugins demo_loaded) = None"
    by code_simp
  note eq = get_plugin_by_name_first_match [THEN conjunct1]
  from a b c show ?thesis
    unfolding eq [of "''dup''" None demo_loaded]
      eq [of "''dup''" "Some ''PageCompiler''" demo_loaded]
      eq [of "''absent''" None demo_loaded]
    by (intro conjI)
qed

text \<open>
  C9. Each deprecated alias returns what the query it stands for returns in the same
  state, and leaves the plugins, the category index and the candidates as they were: its
  bookkeeping touches the set of sites warned and the log only.
\<close>

theorem aliases_return_same_data:
  "fst (getPluginsOfCategory caller c s) = get_plugins_of_category c s \<and>
   fst (getPluginByName caller n cat s) = get_plugin_by_name n cat s \<and>
   plugins (snd (getPluginsOfCategory caller c s)) = plugins s \<and>
   plugins_by_category (snd (getPluginsOfCategory caller c s)) = plugins_by_category s \<and>
   candidates (snd (getPluginsOfCategory caller c s)) = candidates s \<and>
   plugins (snd (getPluginByName caller n cat s)) = plugins s \<and>
   plugins_by_category (snd (getPluginByName caller n cat s)) = plugins_by_category s \<and>
   candidates (snd (getPluginByName caller n cat s)) = candidates s"
  by (simp add: getPluginsOfCategory_def getPluginByName_def get_plugins_of_category_def
      get_plugin_by_name_def warn_deprecation_def Let_def)

theorem aliases_return_same_data_witness:
  "fst (getPluginsOfCategory (demo_caller 7) ''Task'' demo_loaded) =
     [demo_plugin ''dup'' ''Task'' 100] \<and>
   fst (getPluginByName (demo_caller 7) ''dup'' (Some ''PageCompiler'') demo_loaded) =
     Some (demo_plugin ''dup'' ''PageCompiler'' 102) \<and>
   plugins (snd (getPluginsOfCategory (demo_caller 7) ''Task'' demo_loaded)) =
     plugins demo_loaded"
proof -
  have a: "get_plugins_of_category ''Task'' demo_loaded = [demo_plugin ''dup'' ''Task'' 100]"
    by code_simp
  have b: "get_plugin_by_name ''dup'' (Some ''PageCompiler'') demo_loaded =
      Some (demo_plugin ''dup'' ''PageCompiler'' 102)"
    by code_simp
  note inst = aliases_return_same_data
    [of "demo_caller 7" "''Task''" demo_loaded "''dup''" "Some ''PageCompiler''"]
  from inst [THEN conjunct1] inst [THEN conjunct2, THEN conjunct1]
    inst [THEN conjunct2, THEN conjunct2, THEN conjunct1]
  show ?thesis
    unfolding a b by (intro conjI)
qed

lemma locate_loop_frame:
  "deprecation_already_warned (snd (locate_loop E fs files s)) = deprecation_already_warned s"
proof (induction files arbitrary: s)
  case Nil
  show ?case by simp
next
  case (Cons f files)
  show ?case
  proof (cases "scan_manifest E f (read_manifest fs f)")
    case (Inl e)
    then show ?thesis by (simp add: locate_one_def)
  next
    case (Inr r)
    obtain line found where "r = (line, found)" by (cases r)
    with Inr Cons.IH show ?thesis by (simp add: locate_one_def)
  qed
qed

lemma locate_plugins_frame:
  "deprecation_already_warned (snd (locate_plugins E fs s)) = deprecation_already_warned s"
proof -
  obtain r t where loop:
    "locate_loop E fs (plugin_files fs (plugin_places s)) (s\<lparr>candidates := []\<rparr>) = (r, t)"
    by (cases "locate_loop E fs (plugin_files fs (plugin_places s)) (s\<lparr>candidates := []\<rparr>)")
  from locate_loop_frame [of E fs "plugin_files fs (plugin_places s)" "s\<lparr>candidates := []\<rparr>"] loop
  have "deprecation_already_warned t = deprecation_already_warned s" by simp
  with loop show ?thesis
    by (cases r) (simp_all add: locate_plugins_def)
qed

lemma perform_warned:
  "deprecation_already_warned (perform E call s) =
     (case site call of
        None \<Rightarrow> deprecation_already_warned s
      | Some k \<Rightarrow> insert k (deprecation_already_warned s))"
proof (cases call)
  case (Locate fs)
  then show ?thesis by (simp add: locate_plugins_frame)
next
  case (Load fs cands)
  then show ?thesis using load_plugins_fields [of E fs cands s] by simp
next
  case (AliasCategory caller c)
  then show ?thesis
    by (auto simp add: getPluginsOfCategory_def warn_deprecation_def Let_def)
next
  case (AliasByName caller n cat)
  then show ?thesis
    by (auto simp add: getPluginByName_def warn_deprecation_def Let_def)
qed simp_all

lemma history_warned:
  "deprecation_already_warned (history E past (init places p)) = {k. Some k \<in> site ` set past}"
proof (induction past rule: rev_induct)
  case Nil
  show ?case by (simp add: history_def init_def)
next
  case (snoc call past)
  have step: "history E (past @ [call]) (init places p) =
      perform E call (history E past (init places p))"
    by (simp add: history_def)
  show ?case
    unfolding step perform_warned snoc.IH
    by (cases "site call") auto
qed

text \<open>
  C5, as the code has it. The set of sites warned is an attribute of the manager. Take
  one manager from its construction through any calls. A call of an alias then logs its
  advisory record, at warning level and naming the alias, the caller, its file and its
  line, exactly when no earlier call of that same alias on this manager came from the
  same file and line, and logs nothing otherwise; earlier calls from other sites, or of
  the other alias, do not count.
\<close>

theorem deprecation_warned_once_per_site:
  "logger (perform E (AliasCategory caller c) (history E past (init places p))) =
     logger (history E past (init places p)) @
       (if Some (''getPluginsOfCategory'', fr_filename caller, fr_lineno caller) \<in> site ` set past
        then []
        else [Log Warning
                (case fr_lineno caller of
                   None \<Rightarrow> ''Deprecated method %s still called by %s in %s.''
                 | Some l \<Rightarrow> ''Deprecated method %s still called by %s in %s, line %i.'')
                ([AStr ''getPluginsOfCategory'', AStr (fr_name caller),
                  AStr (fr_filename caller)] @
                 (case fr_lineno caller of None \<Rightarrow> [] | Some l \<Rightarrow> [ANum l]))]) \<and>
   logger (perform E (AliasByName caller n cat) (history E past (init places p))) =
     logger (history E past (init places p)) @
       (if Some (''getPluginByName'', fr_filename caller, fr_lineno caller) \<in> site ` set past
        then []
        else [Log Warning
                (case fr_lineno caller of
                   None \<Rightarrow> ''Deprecated method %s still called by %s in %s.''
                 | Some l \<Rightarrow> ''Deprecated method %s still called by %s in %s, line %i.'')
                ([AStr ''getPluginByName'', AStr (fr_name caller),
                  AStr (fr_filename caller)] @
                 (case fr_lineno caller of None \<Rightarrow> [] | Some l \<Rightarrow> [ANum l]))])"
proof -
  have line: "deprecation_line m caller =
      Log Warning
        (case fr_lineno caller of
           None \<Rightarrow> ''Deprecated method %s still called by %s in %s.''
         | Some l \<Rightarrow> ''Deprecated method %s still called by %s in %s, line %i.'')
        ([AStr m, AStr (fr_name caller), AStr (fr_filename caller)] @
         (case fr_lineno caller of None \<Rightarrow> [] | Some l \<Rightarrow> [ANum l]))" for m
    by (cases "fr_lineno caller") (simp_all add: deprecation_line_def)
  show ?thesis
    unfolding line [symmetric]
    by (simp add: getPluginsOfCategory_def getPluginByName_def warn_deprecation_def Let_def
        history_warned)
qed

text \<open>
  C5 as it is stated fails: the set does not outlive its manager. A second manager made
  in the same process warns again for a site the first one has warned about, and the
  process's log holds the warning twice.
\<close>

theorem second_manager_warns_again:
  "logger (perform demo_env (AliasCategory (demo_caller 7) ''Task'')
     (init [] (process.truncate
        (perform demo_env (AliasCategory (demo_caller 7) ''Task'') (init [] demo_process))))) =
   [Log Warning ''Deprecated method %s still called by %s in %s, line %i.''
      [AStr ''getPluginsOfCategory'', AStr ''render'', AStr ''site.py'', ANum 7],
    Log Warning ''Deprecated method %s still called by %s in %s, line %i.''
      [AStr ''getPluginsOfCategory'', AStr ''render'', AStr ''site.py'', ANum 7]]"
  by code_simp


theorem deprecation_warned_once_per_site_witness:
  "logger (perform demo_env (AliasCategory (demo_caller 7) ''Task'')
     (history demo_env
        [AliasCategory (demo_caller 7) ''Task'', GetCategory ''Task'',
         AliasByName (demo_caller 7) ''dup'' None]
        (init [] demo_process))) =
   logger (history demo_env
        [AliasCategory (demo_caller 7) ''Task'', GetCategory ''Task'',
         AliasByName (demo_caller 7) ''dup'' None]
        (init [] demo_process)) @ [] \<and>
   logger (perform demo_env (AliasCategory (demo_caller 8) ''Task'')
     (history demo_env
        [AliasCategory (demo_caller 7) ''Task'', GetCategory ''Task'',
         AliasByName (demo_caller 7) ''dup'' None]
        (init [] demo_process))) =
   logger (history demo_env
        [AliasCategory (demo_caller 7) ''Task'', GetCategory ''Task'',
         AliasByName (demo_caller 7) ''dup'' None]
        (init [] demo_process)) @ [Log Warning ''Deprecated method %s still called by %s in %s, line %i.''
        [AStr ''getPluginsOfCategory'', AStr ''render'', AStr ''site.py'', ANum 8]] \<and>
   logger (history demo_env
        [AliasCategory (demo_caller 7) ''Task'', GetCategory ''Task'',
         AliasByName (demo_caller 7) ''dup'' None]
        (init [] demo_process)) =
     [Log Warning ''Deprecated method %s still called by %s in %s, line %i.''
        [AStr ''getPluginsOfCategory'', AStr ''render'', AStr ''site.py'', ANum 7],
      Log Warning ''Deprecated method %s still called by %s in %s, line %i.''
        [AStr ''getPluginByName'', AStr ''render'', AStr ''site.py'', ANum 7]]"
proof -
  let ?past = "[AliasCategory (demo_caller 7) ''Task'', GetCategory ''Task'',
         AliasByName (demo_caller 7) ''dup'' None]"
  have seen: "(Some (''getPluginsOfCategory'', fr_filename (demo_caller 7),
                 fr_lineno (demo_caller 7)) \<in> site ` set ?past) = True"
    by code_simp
  have fresh: "(Some (''getPluginsOfCategory'', fr_filename (demo_caller 8),
                 fr_lineno (demo_caller 8)) \<in> site ` set ?past) = False"
    by code_simp
  have so_far: "logger (history demo_env ?past (init [] demo_process)) =
     [Log Warning ''Deprecated method %s still called by %s in %s, line %i.''
        [AStr ''getPluginsOfCategory'', AStr ''render'', AStr ''site.py'', ANum 7],
      Log Warning ''Deprecated method %s still called by %s in %s, line %i.''
        [AStr ''getPluginByName'', AStr ''render'', AStr ''site.py'', ANum 7]]"
    by code_simp
  have line8: "Log Warning
      (case fr_lineno (demo_caller 8) of
         None \<Rightarrow> ''Deprecated method %s still called by %s in %s.''
       | Some l \<Rightarrow> ''Deprecated method %s still called by %s in %s, line %i.'')
      ([AStr ''getPluginsOfCategory'', AStr (fr_name (demo_caller 8)),
        AStr (fr_filename (demo_caller 8))] @
       (case fr_lineno (demo_caller 8) of None \<Rightarrow> [] | Some l \<Rightarrow> [ANum l])) =
     Log Warning ''Deprecated method %s still called by %s in %s, line %i.''
       [AStr ''getPluginsOfCategory'', AStr ''render'', AStr ''site.py'', ANum 8]"
    by code_simp
  note again = deprecation_warned_once_per_site
    [of demo_env "demo_caller 7" "''Task''" ?past "[]" demo_process, THEN conjunct1,
     unfolded seen if_True]
  note elsewhere = deprecation_warned_once_per_site
    [of demo_env "demo_caller 8" "''Task''" ?past "[]" demo_process, THEN conjunct1,
     unfolded fresh if_False line8]
  from again elsewhere so_far show ?thesis by (intro conjI)
qed

subsection \<open>The category index\<close>

lemma locate_loop_index:
  "plugins_by_category (snd (locate_loop E fs files s)) = plugins_by_category s"
proof (induction files arbitrary: s)
  case Nil
  show ?case by simp
next
  case (Cons f files)
  show ?case
  proof (cases "scan_manifest E f (read_manifest fs f)")
    case (Inl e)
    then show ?thesis by (simp add: locate_one_def)
  next
    case (Inr r)
    obtain line found where "r = (line, found)" by (cases r)
    with Inr Cons.IH show ?thesis by (simp add: locate_one_def)
  qed
qed

lemma locate_plugins_index:
  "plugins_by_category (snd (locate_plugins E fs s)) = plugins_by_category s"
proof -
  obtain r t where loop:
    "locate_loop E fs (plugin_files fs (plugin_places s)) (s\<lparr>candidates := []\<rparr>) = (r, t)"
    by (cases "locate_loop E fs (plugin_files fs (plugin_places s)) (s\<lparr>candidates := []\<rparr>)")
  from locate_loop_index [of E fs "plugin_files fs (plugin_places s)" "s\<lparr>candidates := []\<rparr>"] loop
  have "plugins_by_category t = plugins_by_category s" by simp
  with loop show ?thesis
    by (cases r) (simp_all add: locate_plugins_def)
qed

lemma index_loop_dom:
  "dom (plugins_by_category (snd (index_loop ps s))) = dom (plugins_by_category s)"
proof (induction ps arbitrary: s)
  case Nil
  show ?case by simp
next
  case (Cons p ps)
  show ?case
  proof (cases "plugins_by_category s (category p)")
    case None
    then show ?thesis by simp
  next
    case (Some entry)
    then show ?thesis
      using Cons.IH [of "s\<lparr>plugins_by_category :=
        (plugins_by_category s)(category p \<mapsto> entry @ [p])\<rparr>"]
      by (auto simp add: dom_def)
  qed
qed

lemma load_plugins_index_dom:
  "dom (plugins_by_category (snd (load_plugins E fs cands s))) \<subseteq>
     dom (plugins_by_category s) \<union> CATEGORY_NAMES E"
proof -
  obtain r t where loop: "load_loop E fs cands s = (r, t)"
    by (cases "load_loop E fs cands s")
  have same: "plugins_by_category t = plugins_by_category s"
    using load_loop_frame [of E fs cands s] loop by simp
  show ?thesis
  proof (cases r)
    case (Inl e)
    with loop same show ?thesis by (simp add: load_plugins_def)
  next
    case (Inr u)
    let ?t = "t\<lparr>plugins_by_category := (\<lambda>c. if c \<in> CATEGORY_NAMES E then Some [] else None)\<rparr>"
    have "dom (plugins_by_category ?t) = CATEGORY_NAMES E"
      by (auto simp add: dom_def)
    with index_loop_dom [of "plugins t" ?t] loop Inr show ?thesis
      by (simp add: load_plugins_def)
  qed
qed

lemma perform_index_dom:
  assumes "dom (plugins_by_category s) \<subseteq> CATEGORY_NAMES E"
  shows "dom (plugins_by_category (perform E call s)) \<subseteq> CATEGORY_NAMES E"
proof (cases call)
  case (Locate fs)
  with assms show ?thesis by (simp add: locate_plugins_index)
next
  case (Load fs cands)
  have "dom (plugins_by_category (snd (load_plugins E fs cands s))) \<subseteq>
      dom (plugins_by_category s) \<union> CATEGORY_NAMES E"
    by (rule load_plugins_index_dom)
  with assms have "dom (plugins_by_category (snd (load_plugins E fs cands s))) \<subseteq>
      CATEGORY_NAMES E"
    by blast
  with Load show ?thesis by simp
next
  case (AliasCategory caller c)
  with assms show ?thesis
    by (simp add: getPluginsOfCategory_def warn_deprecation_def Let_def)
next
  case (AliasByName caller n cat)
  with assms show ?thesis
    by (simp add: getPluginByName_def warn_deprecation_def Let_def)
qed (use assms in simp_all)

lemma history_index_dom:
  "dom (plugins_by_category (history E calls (init places p))) \<subseteq> CATEGORY_NAMES E"
proof (induction calls rule: rev_induct)
  case Nil
  show ?case by (simp add: history_def init_def)
next
  case (snoc call calls)
  have "history E (calls @ [call]) (init places p) =
      perform E call (history E calls (init places p))"
    by (simp add: history_def)
  with perform_index_dom [OF snoc.IH, of call] show ?case by simp
qed

text \<open>
  C7, as the code has it. \<^verbatim>\<open>get_plugins_of_category\<close> is a lookup with a default and
  has no failing branch. After a \<^verbatim>\<open>load_plugins\<close> pass that returned, the index has an
  entry for
  exactly the registered categories, and the query gives, for a registered category, the
  accumulated plugins of that category in load order (the empty list when there are
  none). For a string that is not a registered category it gives the empty list at every
  moment of a manager's life.
\<close>

theorem category_index_after_load:
  "(fst (load_plugins E fs cands s) = Inr () \<longrightarrow>
      get_plugins_of_category c (snd (load_plugins E fs cands s)) =
        (if c \<in> CATEGORY_NAMES E
         then filter (\<lambda>p. category p = c) (plugins (snd (load_plugins E fs cands s)))
         else []) \<and>
      (plugins_by_category (snd (load_plugins E fs cands s)) c \<noteq> None \<longleftrightarrow>
         c \<in> CATEGORY_NAMES E)) \<and>
   (c \<notin> CATEGORY_NAMES E \<longrightarrow>
      get_plugins_of_category c (history E calls (init places p)) = [])"
proof (rule conjI; rule impI)
  assume "c \<notin> CATEGORY_NAMES E"
  with history_index_dom [of E calls places p]
  have "plugins_by_category (history E calls (init places p)) c = None"
    by (auto simp add: dom_def)
  then show "get_plugins_of_category c (history E calls (init places p)) = []"
    by (simp add: get_plugins_of_category_def)
next
  assume ret: "fst (load_plugins E fs cands s) = Inr ()"
  obtain r t where loop: "load_loop E fs cands s = (r, t)"
    by (cases "load_loop E fs cands s")
  let ?t = "t\<lparr>plugins_by_category := (\<lambda>c. if c \<in> CATEGORY_NAMES E then Some [] else None)\<rparr>"
  from ret loop obtain u where r: "r = Inr u"
    by (cases r) (simp_all add: load_plugins_def)
  have lp: "load_plugins E fs cands s = index_loop (plugins t) ?t"
    using loop r by (simp add: load_plugins_def)
  from ret have ok: "fst (index_loop (plugins t) ?t) = Inr ()"
    unfolding lp .
  have pl: "plugins (snd (load_plugins E fs cands s)) = plugins t"
    using load_plugins_fields [of E fs cands s] loop by simp
  have entry: "plugins_by_category (snd (load_plugins E fs cands s)) c =
      (if c \<in> CATEGORY_NAMES E then Some (filter (\<lambda>p. category p = c) (plugins t)) else None)"
    unfolding lp index_loop_entries [OF ok] by simp
  show "get_plugins_of_category c (snd (load_plugins E fs cands s)) =
        (if c \<in> CATEGORY_NAMES E
         then filter (\<lambda>p. category p = c) (plugins (snd (load_plugins E fs cands s)))
         else []) \<and>
      (plugins_by_category (snd (load_plugins E fs cands s)) c \<noteq> None \<longleftrightarrow>
         c \<in> CATEGORY_NAMES E)"
    unfolding get_plugins_of_category_def entry pl by simp
qed

theorem category_index_after_load_witness:
  "fst (load_plugins demo_env demo_fs demo_pair (init [] demo_process)) = Inr () \<and>
   get_plugins_of_category ''Task''
     (snd (load_plugins demo_env demo_fs demo_pair (init [] demo_process))) = [] \<and>
   get_plugins_of_category ''Alien''
     (snd (load_plugins demo_env demo_fs demo_pair (init [] demo_process))) = [] \<and>
   map name (get_plugins_of_category ''PageCompiler''
     (snd (load_plugins demo_env demo_fs demo_pair (init [] demo_process)))) = [''X''] \<and>
   get_plugins_of_category ''Alien''
     (history demo_env [GetCategory ''Task'', Load demo_fs demo_pair] (init [] demo_process)) = []"
proof -
  let ?s' = "snd (load_plugins demo_env demo_fs demo_pair (init [] demo_process))"
  have h: "fst (load_plugins demo_env demo_fs demo_pair (init [] demo_process)) = Inr ()"
    by code_simp
  have known: "(''Task'' \<in> CATEGORY_NAMES demo_env) = True"
    "(''PageCompiler'' \<in> CATEGORY_NAMES demo_env) = True"
    "(''Alien'' \<in> CATEGORY_NAMES demo_env) = False"
    by code_simp+
  have unknown: "''Alien'' \<notin> CATEGORY_NAMES demo_env"
    using known(3) by simp
  have none: "filter (\<lambda>p. category p = ''Task'') (plugins ?s') = []"
    by code_simp
  have all: "map name (filter (\<lambda>p. category p = ''PageCompiler'') (plugins ?s')) = [''X'']"
    by code_simp
  note inst = category_index_after_load
    [where E = demo_env and fs = demo_fs and cands = demo_pair and s = "init [] demo_process",
     THEN conjunct1, THEN mp, OF h, THEN conjunct1]
  have a: "get_plugins_of_category ''Task'' ?s' = []"
    unfolding inst [of "''Task''"] known if_True by (rule none)
  have b: "get_plugins_of_category ''Alien'' ?s' = []"
    unfolding inst [of "''Alien''"] known if_False by (rule refl)
  have c: "map name (get_plugins_of_category ''PageCompiler'' ?s') = [''X'']"
    unfolding inst [of "''PageCompiler''"] known if_True by (rule all)
  note d = category_index_after_load
    [where E = demo_env and c = "''Alien''"
       and calls = "[GetCategory ''Task'', Load demo_fs demo_pair]"
       and places = "[]" and p = demo_process,
     THEN conjunct2, THEN mp, OF unknown]
  from h a b c d show ?thesis by (intro conjI)
qed

text \<open>
  C7 as it is stated fails after a pass that raises. When the rebuild of the index meets
  a plugin whose category is not registered, the plugins behind it are loaded but not
  indexed; when the loop itself raises, the index is not rebuilt at all, and a new
  manager has no entry for any category.
\<close>

theorem index_incomplete_after_raising_pass:
  "fst (load_plugins demo_env demo_fs
          [demo_candidate ''X'' ''x'' ''Alien'', demo_candidate ''X'' ''x'' ''PageCompiler'']
          (init [] demo_process)) = Inl (KeyError ''Alien'') \<and>
   map category (plugins (snd (load_plugins demo_env demo_fs
          [demo_candidate ''X'' ''x'' ''Alien'', demo_candidate ''X'' ''x'' ''PageCompiler'']
          (init [] demo_process)))) = [''Alien'', ''PageCompiler''] \<and>
   get_plugins_of_category ''PageCompiler'' (snd (load_plugins demo_env demo_fs
          [demo_candidate ''X'' ''x'' ''Alien'', demo_candidate ''X'' ''x'' ''PageCompiler'']
          (init [] demo_process))) = [] \<and>
   fst (load_plugins demo_env_root demo_fs [demo_candidate ''Root'' ''root'' ''Task'']
          (init [] demo_process)) = Inl IndexError \<and>
   plugins_by_category (snd (load_plugins demo_env_root demo_fs
          [demo_candidate ''Root'' ''root'' ''Task''] (init [] demo_process))) ''Task'' = None"
  by code_simp

end
